theory Spec2Isabelle
  imports Main "HOL-Library.Word"
begin

unbundle bit_operations_syntax

section \<open>The emulator state (class NESemulator of main.cpp)\<close>

text \<open>
  The C++ class keeps the whole machine in its private fields. \<open>std::uint8_t\<close> is
  \<open>8 word\<close>, \<open>ushort\<close> is \<open>16 word\<close>; arithmetic on them wraps as the C++
  conversions back to the narrow type do. Where the source computes in \<open>int\<close> (integer
  promotion) and the difference is visible, the model computes in \<open>int\<close> as well.

  The arrays \<open>_header[0x10]\<close>, \<open>_ram[0x800]\<close> and \<open>_rom[0x8000]\<close> are functions
  from the index; every index the code forms is in range (\<open>address % 0x800\<close>, and
  \<open>address - 0x8000\<close> for a 16-bit \<open>address \<ge> 0x8000\<close>).

  \<open>std::cerr\<close> is the list \<open>cerr\<close> of the diagnostics written so far, in order.
  The trace that \<open>traceLog\<close> prints on \<open>std::cout\<close> is output only and is not
  modelled. \<open>_cycleCount\<close> is a C++ \<open>int\<close>; it is modelled as an unbounded integer.
\<close>

type_synonym byte = "8 word"
type_synonym ushort = "16 word"

datatype diagnostic =
    InvalidMemoryRead ushort
  | UnknownOpcode byte
  | FailedToOpenROM
  | FailedToReadROM

record NESemulator =
  programCounter :: ushort
  A :: byte
  X :: byte
  Y :: byte
  addressBus :: byte
  header :: "nat \<Rightarrow> byte"
  ram :: "nat \<Rightarrow> byte"
  rom :: "nat \<Rightarrow> byte"
  flagCarry :: bool
  flagZero :: bool
  flagInterruptDisable :: bool
  flagDecimal :: bool
  flagOverflow :: bool
  flagNegative :: bool
  stackPointer :: byte
  cpuHalted :: bool
  cycleCount :: int
  cerr :: "diagnostic list"

section \<open>Address space\<close>

text \<open>
  \<open>readMemory\<close>: RAM below \<open>0x800\<close>, ROM from \<open>0x8000\<close>, and otherwise the
  message \<open>Invalid memory read at address\<close> on \<open>std::cerr\<close> and the value 0.
\<close>

definition readMemory :: "ushort \<Rightarrow> NESemulator \<Rightarrow> byte \<times> NESemulator" where
  "readMemory address s =
     (if address < 0x800 then (ram s (unat address mod 0x800), s)
      else if address \<ge> 0x8000 then (rom s (unat (address - 0x8000)), s)
      else (0, s\<lparr>cerr := cerr s @ [InvalidMemoryRead address]\<rparr>))"

definition writeMemory :: "ushort \<Rightarrow> byte \<Rightarrow> NESemulator \<Rightarrow> NESemulator" where
  "writeMemory address v s = s\<lparr>ram := (ram s)(unat address mod 0x800 := v)\<rparr>"

section \<open>Stack\<close>

definition pushStack :: "byte \<Rightarrow> NESemulator \<Rightarrow> NESemulator" where
  "pushStack v s =
     (let s = writeMemory (0x0100 + ucast (stackPointer s)) v s
      in s\<lparr>stackPointer := stackPointer s - 1\<rparr>)"

definition pullStack :: "NESemulator \<Rightarrow> byte \<times> NESemulator" where
  "pullStack s =
     (let s = s\<lparr>stackPointer := stackPointer s + 1\<rparr>
      in readMemory (0x0100 + ucast (stackPointer s)) s)"

section \<open>Shared helpers of the instruction bodies\<close>

text \<open>
  The expression \<open>static_cast<ushort>((high << 8) | low)\<close>, which the source writes out
  wherever it forms a 16-bit address from two bytes.
\<close>

definition addr16 :: "byte \<Rightarrow> byte \<Rightarrow> ushort" where
  "addr16 high low = push_bit 8 (ucast high) OR ucast low"

text \<open>
  \<open>readOperandsAbsoluteAddress\<close> reads two operand bytes and stores the address in
  \<open>_addressBus\<close>, which is a \<open>std::uint8_t\<close>: the assignment keeps the low eight bits.
\<close>

definition readOperandsAbsoluteAddress :: "NESemulator \<Rightarrow> NESemulator" where
  "readOperandsAbsoluteAddress s =
     (let (low, s) = readMemory (programCounter s) s;
          s = s\<lparr>programCounter := programCounter s + 1\<rparr>;
          (high, s) = readMemory (programCounter s) s;
          s = s\<lparr>programCounter := programCounter s + 1\<rparr>
      in s\<lparr>addressBus := ucast (addr16 high low)\<rparr>)"

definition readOperandsIndirectAddressedXIndexed :: "NESemulator \<Rightarrow> NESemulator" where
  "readOperandsIndirectAddressedXIndexed s =
     (let (zpAddr, s) = readMemory (programCounter s) s;
          s = s\<lparr>programCounter := programCounter s + 1\<rparr>;
          (effectiveAddrLow, s) = readMemory ((ucast zpAddr + ucast (X s)) AND 0x00FF) s;
          (effectiveAddrHigh, s) = readMemory ((ucast zpAddr + ucast (X s) + 1) AND 0x00FF) s
      in s\<lparr>addressBus := ucast (addr16 effectiveAddrHigh effectiveAddrLow)\<rparr>)"

definition opASL :: "ushort \<Rightarrow> byte \<Rightarrow> NESemulator \<Rightarrow> NESemulator" where
  "opASL address input s =
     (let s = s\<lparr>flagCarry := (input > 127)\<rparr>;
          input = push_bit 1 input;
          s = writeMemory address input s
      in s\<lparr>flagNegative := (input > 127), flagZero := (input = 0)\<rparr>)"

definition opROL :: "ushort \<Rightarrow> byte \<Rightarrow> NESemulator \<Rightarrow> NESemulator" where
  "opROL address input s =
     (let futureFlagCarry = (input > 127);
          input = push_bit 1 input;
          input = (if flagCarry s then input OR 1 else input);
          s = writeMemory address input s
      in s\<lparr>flagCarry := futureFlagCarry, flagNegative := (input > 127),
            flagZero := (input = 0)\<rparr>)"

definition opINC :: "ushort \<Rightarrow> byte \<Rightarrow> NESemulator \<Rightarrow> NESemulator" where
  "opINC address input s =
     (let input = input + 1;
          s = writeMemory address input s
      in s\<lparr>flagNegative := (input > 127), flagZero := (input = 0)\<rparr>)"

definition opDEC :: "ushort \<Rightarrow> byte \<Rightarrow> NESemulator \<Rightarrow> NESemulator" where
  "opDEC address input s =
     (let input = input - 1;
          s = writeMemory address input s
      in s\<lparr>flagNegative := (input > 127), flagZero := (input = 0)\<rparr>)"

definition opORA :: "byte \<Rightarrow> NESemulator \<Rightarrow> NESemulator" where
  "opORA input s =
     (let s = s\<lparr>A := A s OR input\<rparr>
      in s\<lparr>flagNegative := (A s > 127), flagZero := (A s = 0)\<rparr>)"

definition opAND :: "byte \<Rightarrow> NESemulator \<Rightarrow> NESemulator" where
  "opAND input s =
     (let s = s\<lparr>A := A s AND input\<rparr>
      in s\<lparr>flagNegative := (A s > 127), flagZero := (A s = 0)\<rparr>)"

definition opEOR :: "byte \<Rightarrow> NESemulator \<Rightarrow> NESemulator" where
  "opEOR input s =
     (let s = s\<lparr>A := A s XOR input\<rparr>
      in s\<lparr>flagNegative := (A s > 127), flagZero := (A s = 0)\<rparr>)"

text \<open>
  \<open>opADC\<close>: \<open>sum\<close> is a C++ \<open>int\<close>, and the overflow test is evaluated on promoted
  \<open>int\<close> operands (\<open>~\<close> of a non-negative \<open>int\<close> is negative), so both are integers here.
\<close>

definition opADC :: "byte \<Rightarrow> NESemulator \<Rightarrow> NESemulator" where
  "opADC input s =
     (let sum = uint (A s) + uint input + (if flagCarry s then 1 else 0);
          s = s\<lparr>flagCarry := (sum > 0xFF)\<rparr>;
          s = s\<lparr>flagOverflow :=
                 ((NOT (uint (A s) XOR uint input) AND (uint (A s) XOR sum) AND 0x80) \<noteq> 0)\<rparr>;
          s = s\<lparr>A := word_of_int sum\<rparr>
      in s\<lparr>flagNegative := (A s > 127), flagZero := (A s = 0)\<rparr>)"

text \<open>
  \<open>opSBC\<close>: \<open>intermediate\<close> is a \<open>uint16_t\<close>; \<open>(uint16_t)(~input) & 0xFF\<close> is the
  one's complement of the operand within eight bits.
\<close>

definition opSBC :: "byte \<Rightarrow> NESemulator \<Rightarrow> NESemulator" where
  "opSBC input s =
     (let intermediate =
            (ucast (A s) + (NOT (ucast input) AND 0xFF) + (if flagCarry s then 1 else 0) :: ushort);
          result = (ucast (intermediate AND 0xFF) :: byte);
          s = s\<lparr>flagCarry := ((intermediate AND 0x100) \<noteq> 0)\<rparr>;
          s = s\<lparr>flagOverflow := (((A s XOR result) AND (A s XOR input) AND 0x80) \<noteq> 0)\<rparr>;
          s = s\<lparr>A := result\<rparr>
      in s\<lparr>flagNegative := ((A s AND 0x80) \<noteq> 0), flagZero := (A s = 0)\<rparr>)"

definition opCMP :: "byte \<Rightarrow> NESemulator \<Rightarrow> NESemulator" where
  "opCMP input s =
     (let diff = A s - input
      in s\<lparr>flagCarry := (A s \<ge> input), flagZero := (A s = input),
            flagNegative := ((diff AND 0x80) \<noteq> 0)\<rparr>)"

definition opBIT :: "byte \<Rightarrow> NESemulator \<Rightarrow> NESemulator" where
  "opBIT input s =
     s\<lparr>flagZero := ((A s AND input) = 0), flagNegative := ((input AND 0x80) \<noteq> 0),
       flagOverflow := ((input AND 0x40) \<noteq> 0)\<rparr>"

text \<open>
  The status byte that PHP and BRK assemble from the flags (the same expression in both
  cases), and the flags that PLP and RTI take from a pulled status byte.
\<close>

definition packStatus :: "NESemulator \<Rightarrow> byte" where
  "packStatus s =
     push_bit 7 (of_bool (flagNegative s)) OR push_bit 6 (of_bool (flagOverflow s)) OR
     push_bit 5 1 OR push_bit 4 1 OR
     push_bit 3 (of_bool (flagDecimal s)) OR push_bit 2 (of_bool (flagInterruptDisable s)) OR
     push_bit 1 (of_bool (flagZero s)) OR of_bool (flagCarry s)"

definition unpackStatus :: "byte \<Rightarrow> NESemulator \<Rightarrow> NESemulator" where
  "unpackStatus status s =
     s\<lparr>flagNegative := ((status AND 0x80) \<noteq> 0), flagOverflow := ((status AND 0x40) \<noteq> 0),
       flagDecimal := ((status AND 0x08) \<noteq> 0),
       flagInterruptDisable := ((status AND 0x04) \<noteq> 0),
       flagZero := ((status AND 0x02) \<noteq> 0), flagCarry := ((status AND 0x01) \<noteq> 0)\<rparr>"

text \<open>
  The body shared, word for word, by the cases BPL, BMI, BEQ, BVS, BCS, BCC and BVC; they
  differ in the tested condition only. \<open>signedVal\<close> is an \<open>int\<close>, and the new program
  counter is the sum converted back to \<open>ushort\<close>.
\<close>

definition branchOn :: "(NESemulator \<Rightarrow> bool) \<Rightarrow> NESemulator \<Rightarrow> NESemulator" where
  "branchOn condition s =
     (let (temp, s) = readMemory (programCounter s) s;
          s = s\<lparr>programCounter := programCounter s + 1\<rparr>;
          s = s\<lparr>cycleCount := cycleCount s + 2\<rparr>
      in if condition s
         then (let signedVal = (if temp > 127 then uint temp - 256 else uint temp);
                   s = s\<lparr>programCounter := word_of_int (uint (programCounter s) + signedVal)\<rparr>
               in s\<lparr>cycleCount := cycleCount s + 3\<rparr>)
         else s\<lparr>cycleCount := cycleCount s + 2\<rparr>)"

section \<open>The cases of handleOpcode\<close>

text \<open>
  One definition per \<open>case\<close> label of the \<open>switch\<close> in \<open>handleOpcode\<close>, in the order of
  the source; each takes the state after the opcode fetch (\<open>_programCounter\<close> already
  points at the first operand byte).
\<close>

definition case_0x02 :: "NESemulator \<Rightarrow> NESemulator" where \<comment> \<open>HLT\<close>
  "case_0x02 s = s\<lparr>cpuHalted := True\<rparr>"

definition case_0xA0 :: "NESemulator \<Rightarrow> NESemulator" where \<comment> \<open>LDY Immediate\<close>
  "case_0xA0 s =
     (let (v, s) = readMemory (programCounter s) s;
          s = s\<lparr>Y := v\<rparr>;
          s = s\<lparr>flagZero := (Y s = 0), flagNegative := (Y s > 127)\<rparr>;
          s = s\<lparr>programCounter := programCounter s + 1\<rparr>
      in s\<lparr>cycleCount := cycleCount s + 2\<rparr>)"

definition case_0xA2 :: "NESemulator \<Rightarrow> NESemulator" where \<comment> \<open>LDX Immediate\<close>
  "case_0xA2 s =
     (let (v, s) = readMemory (programCounter s) s;
          s = s\<lparr>X := v\<rparr>;
          s = s\<lparr>flagZero := (X s = 0), flagNegative := (X s > 127)\<rparr>;
          s = s\<lparr>programCounter := programCounter s + 1\<rparr>
      in s\<lparr>cycleCount := cycleCount s + 2\<rparr>)"

definition case_0xA5 :: "NESemulator \<Rightarrow> NESemulator" where \<comment> \<open>LDA Zero Page\<close>
  "case_0xA5 s =
     (let (zp, s) = readMemory (programCounter s) s;
          s = s\<lparr>programCounter := programCounter s + 1\<rparr>;
          (v, s) = readMemory (ucast zp) s;
          s = s\<lparr>A := v\<rparr>;
          s = s\<lparr>flagZero := (A s = 0), flagNegative := ((A s AND 0x80) \<noteq> 0)\<rparr>
      in s\<lparr>cycleCount := cycleCount s + 3\<rparr>)"

definition case_0xA9 :: "NESemulator \<Rightarrow> NESemulator" where \<comment> \<open>LDA Immediate\<close>
  "case_0xA9 s =
     (let (v, s) = readMemory (programCounter s) s;
          s = s\<lparr>A := v\<rparr>;
          s = s\<lparr>flagZero := (A s = 0), flagNegative := (A s > 127)\<rparr>;
          s = s\<lparr>programCounter := programCounter s + 1\<rparr>
      in s\<lparr>cycleCount := cycleCount s + 2\<rparr>)"

definition case_0xAD :: "NESemulator \<Rightarrow> NESemulator" where \<comment> \<open>LDA Absolute\<close>
  "case_0xAD s =
     (let (low, s) = readMemory (programCounter s) s;
          s = s\<lparr>programCounter := programCounter s + 1\<rparr>;
          (high, s) = readMemory (programCounter s) s;
          s = s\<lparr>programCounter := programCounter s + 1\<rparr>;
          addr = addr16 high low;
          (v, s) = readMemory addr s;
          s = s\<lparr>A := v\<rparr>;
          s = s\<lparr>flagZero := (A s = 0), flagNegative := ((A s AND 0x80) \<noteq> 0)\<rparr>
      in s\<lparr>cycleCount := cycleCount s + 4\<rparr>)"

definition case_0x85 :: "NESemulator \<Rightarrow> NESemulator" where \<comment> \<open>STA Zero Page\<close>
  "case_0x85 s =
     (let (temp, s) = readMemory (programCounter s) s;
          s = s\<lparr>programCounter := programCounter s + 1\<rparr>;
          s = writeMemory (ucast temp) (A s) s
      in s\<lparr>cycleCount := cycleCount s + 3\<rparr>)"

definition case_0x8D :: "NESemulator \<Rightarrow> NESemulator" where \<comment> \<open>STA Absolute\<close>
  "case_0x8D s =
     (let (tempLow, s) = readMemory (programCounter s) s;
          s = s\<lparr>programCounter := programCounter s + 1\<rparr>;
          (tempHigh, s) = readMemory (programCounter s) s;
          s = s\<lparr>programCounter := programCounter s + 1\<rparr>;
          s = writeMemory (addr16 tempHigh tempLow) (A s) s
      in s\<lparr>cycleCount := cycleCount s + 4\<rparr>)"

definition case_0x86 :: "NESemulator \<Rightarrow> NESemulator" where \<comment> \<open>STX Zero Page\<close>
  "case_0x86 s =
     (let (temp, s) = readMemory (programCounter s) s;
          s = s\<lparr>programCounter := programCounter s + 1\<rparr>;
          s = writeMemory (ucast temp) (X s) s
      in s\<lparr>cycleCount := cycleCount s + 3\<rparr>)"

definition case_0x8E :: "NESemulator \<Rightarrow> NESemulator" where \<comment> \<open>STX Absolute\<close>
  "case_0x8E s =
     (let (tempLow, s) = readMemory (programCounter s) s;
          s = s\<lparr>programCounter := programCounter s + 1\<rparr>;
          (tempHigh, s) = readMemory (programCounter s) s;
          s = s\<lparr>programCounter := programCounter s + 1\<rparr>;
          s = writeMemory (addr16 tempHigh tempLow) (X s) s
      in s\<lparr>cycleCount := cycleCount s + 4\<rparr>)"

definition case_0x84 :: "NESemulator \<Rightarrow> NESemulator" where \<comment> \<open>STY Zero Page\<close>
  "case_0x84 s =
     (let (temp, s) = readMemory (programCounter s) s;
          s = s\<lparr>programCounter := programCounter s + 1\<rparr>;
          s = writeMemory (ucast temp) (Y s) s
      in s\<lparr>cycleCount := cycleCount s + 3\<rparr>)"

definition case_0x8C :: "NESemulator \<Rightarrow> NESemulator" where \<comment> \<open>STY Absolute\<close>
  "case_0x8C s =
     (let (tempLow, s) = readMemory (programCounter s) s;
          s = s\<lparr>programCounter := programCounter s + 1\<rparr>;
          (tempHigh, s) = readMemory (programCounter s) s;
          s = s\<lparr>programCounter := programCounter s + 1\<rparr>;
          s = writeMemory (addr16 tempHigh tempLow) (Y s) s
      in s\<lparr>cycleCount := cycleCount s + 4\<rparr>)"

definition case_0x10 :: "NESemulator \<Rightarrow> NESemulator" where \<comment> \<open>BPL Branch on Plus\<close>
  "case_0x10 s = branchOn (\<lambda>s. \<not> flagNegative s) s"

definition case_0x30 :: "NESemulator \<Rightarrow> NESemulator" where \<comment> \<open>BMI Branch on Minus\<close>
  "case_0x30 s = branchOn (\<lambda>s. flagNegative s) s"

text \<open>
  BNE is written differently from the other branches: the offset is sign-extended through
  \<open>int8_t\<close>, a taken branch adds one cycle, and a further one when the high byte of the
  program counter changes.
\<close>

definition case_0xD0 :: "NESemulator \<Rightarrow> NESemulator" where \<comment> \<open>BNE Branch on Not Equal\<close>
  "case_0xD0 s =
     (let (offset, s) = readMemory (programCounter s) s;
          s = s\<lparr>programCounter := programCounter s + 1\<rparr>;
          s = s\<lparr>cycleCount := cycleCount s + 2\<rparr>
      in if \<not> flagZero s
         then (let rel = sint offset;
                   oldPC = programCounter s;
                   s = s\<lparr>programCounter := word_of_int (uint (programCounter s) + rel)\<rparr>;
                   s = s\<lparr>cycleCount := cycleCount s + 1\<rparr>
               in if (oldPC AND 0xFF00) \<noteq> (programCounter s AND 0xFF00)
                  then s\<lparr>cycleCount := cycleCount s + 1\<rparr> else s)
         else s)"

definition case_0xF0 :: "NESemulator \<Rightarrow> NESemulator" where \<comment> \<open>BEQ Branch on Equal\<close>
  "case_0xF0 s = branchOn (\<lambda>s. flagZero s) s"

definition case_0x48 :: "NESemulator \<Rightarrow> NESemulator" where \<comment> \<open>PHA Push Accumulator\<close>
  "case_0x48 s =
     (let s = pushStack (A s) s
      in s\<lparr>cycleCount := cycleCount s + 3\<rparr>)"

definition case_0x68 :: "NESemulator \<Rightarrow> NESemulator" where \<comment> \<open>PLA Pull Accumulator\<close>
  "case_0x68 s =
     (let (v, s) = pullStack s;
          s = s\<lparr>A := v\<rparr>;
          s = s\<lparr>flagZero := (A s = 0), flagNegative := (A s > 127)\<rparr>
      in s\<lparr>cycleCount := cycleCount s + 4\<rparr>)"

definition case_0x20 :: "NESemulator \<Rightarrow> NESemulator" where \<comment> \<open>JSR Jump to Subroutine\<close>
  "case_0x20 s =
     (let (low, s) = readMemory (programCounter s) s;
          s = s\<lparr>programCounter := programCounter s + 1\<rparr>;
          (high, s) = readMemory (programCounter s) s;
          s = s\<lparr>programCounter := programCounter s + 1\<rparr>;
          target = addr16 high low;
          returnAddr = programCounter s - 1;
          s = pushStack (ucast (drop_bit 8 returnAddr)) s;
          s = pushStack (ucast (returnAddr AND 0xFF)) s;
          s = s\<lparr>programCounter := target\<rparr>
      in s\<lparr>cycleCount := cycleCount s + 6\<rparr>)"

definition case_0x60 :: "NESemulator \<Rightarrow> NESemulator" where \<comment> \<open>RTS Return from Subroutine\<close>
  "case_0x60 s =
     (let (tempLow, s) = pullStack s;
          (tempHigh, s) = pullStack s;
          s = s\<lparr>programCounter := addr16 tempHigh tempLow\<rparr>;
          s = s\<lparr>programCounter := programCounter s + 1\<rparr>
      in s\<lparr>cycleCount := cycleCount s + 6\<rparr>)"

definition case_0xEA :: "NESemulator \<Rightarrow> NESemulator" where \<comment> \<open>NOP No Operation\<close>
  "case_0xEA s = s\<lparr>cycleCount := cycleCount s + 2\<rparr>"

definition case_0xE8 :: "NESemulator \<Rightarrow> NESemulator" where \<comment> \<open>INX Increment X\<close>
  "case_0xE8 s =
     (let s = s\<lparr>X := X s + 1\<rparr>;
          s = s\<lparr>flagZero := (X s = 0), flagNegative := (X s > 127)\<rparr>
      in s\<lparr>cycleCount := cycleCount s + 2\<rparr>)"

definition case_0xC8 :: "NESemulator \<Rightarrow> NESemulator" where \<comment> \<open>INY Increment Y\<close>
  "case_0xC8 s =
     (let s = s\<lparr>Y := Y s + 1\<rparr>;
          s = s\<lparr>flagZero := (Y s = 0), flagNegative := (Y s > 127)\<rparr>
      in s\<lparr>cycleCount := cycleCount s + 2\<rparr>)"

definition case_0xCA :: "NESemulator \<Rightarrow> NESemulator" where \<comment> \<open>DEX Decrement X\<close>
  "case_0xCA s =
     (let s = s\<lparr>X := X s - 1\<rparr>;
          s = s\<lparr>flagZero := (X s = 0), flagNegative := (X s > 127)\<rparr>
      in s\<lparr>cycleCount := cycleCount s + 2\<rparr>)"

definition case_0x88 :: "NESemulator \<Rightarrow> NESemulator" where \<comment> \<open>DEY Decrement Y\<close>
  "case_0x88 s =
     (let s = s\<lparr>Y := Y s - 1\<rparr>;
          s = s\<lparr>flagZero := (Y s = 0), flagNegative := (Y s > 127)\<rparr>
      in s\<lparr>cycleCount := cycleCount s + 2\<rparr>)"

definition case_0xAA :: "NESemulator \<Rightarrow> NESemulator" where \<comment> \<open>TAX Transfer Accumulator to X\<close>
  "case_0xAA s =
     (let s = s\<lparr>X := A s\<rparr>;
          s = s\<lparr>flagZero := (X s = 0), flagNegative := (X s > 127)\<rparr>
      in s\<lparr>cycleCount := cycleCount s + 2\<rparr>)"

definition case_0x8A :: "NESemulator \<Rightarrow> NESemulator" where \<comment> \<open>TXA Transfer X to Accumulator\<close>
  "case_0x8A s =
     (let s = s\<lparr>A := X s\<rparr>;
          s = s\<lparr>flagZero := (A s = 0), flagNegative := (A s > 127)\<rparr>
      in s\<lparr>cycleCount := cycleCount s + 2\<rparr>)"

definition case_0xA8 :: "NESemulator \<Rightarrow> NESemulator" where \<comment> \<open>TAY Transfer Accumulator to Y\<close>
  "case_0xA8 s =
     (let s = s\<lparr>Y := A s\<rparr>;
          s = s\<lparr>flagZero := (Y s = 0), flagNegative := (Y s > 127)\<rparr>
      in s\<lparr>cycleCount := cycleCount s + 2\<rparr>)"

definition case_0x98 :: "NESemulator \<Rightarrow> NESemulator" where \<comment> \<open>TYA Transfer Y to Accumulator\<close>
  "case_0x98 s =
     (let s = s\<lparr>A := Y s\<rparr>;
          s = s\<lparr>flagZero := (A s = 0), flagNegative := (A s > 127)\<rparr>
      in s\<lparr>cycleCount := cycleCount s + 2\<rparr>)"

definition case_0x9A :: "NESemulator \<Rightarrow> NESemulator" where \<comment> \<open>TXS Transfer X to Stack Pointer\<close>
  "case_0x9A s =
     (let s = s\<lparr>stackPointer := X s\<rparr>
      in s\<lparr>cycleCount := cycleCount s + 2\<rparr>)"

definition case_0xBA :: "NESemulator \<Rightarrow> NESemulator" where \<comment> \<open>TSX Transfer Stack Pointer to X\<close>
  "case_0xBA s =
     (let s = s\<lparr>X := stackPointer s\<rparr>;
          s = s\<lparr>flagZero := (X s = 0), flagNegative := (X s > 127)\<rparr>
      in s\<lparr>cycleCount := cycleCount s + 2\<rparr>)"

definition case_0x38 :: "NESemulator \<Rightarrow> NESemulator" where \<comment> \<open>SEC Set Carry Flag\<close>
  "case_0x38 s = s\<lparr>flagCarry := True, cycleCount := cycleCount s + 2\<rparr>"

definition case_0x18 :: "NESemulator \<Rightarrow> NESemulator" where \<comment> \<open>CLC Clear Carry Flag\<close>
  "case_0x18 s = s\<lparr>flagCarry := False, cycleCount := cycleCount s + 2\<rparr>"

definition case_0xB8 :: "NESemulator \<Rightarrow> NESemulator" where \<comment> \<open>CLV Clear Overflow Flag\<close>
  "case_0xB8 s = s\<lparr>flagOverflow := False, cycleCount := cycleCount s + 2\<rparr>"

definition case_0x78 :: "NESemulator \<Rightarrow> NESemulator" where \<comment> \<open>SEI Set Interrupt Disable\<close>
  "case_0x78 s = s\<lparr>flagInterruptDisable := True, cycleCount := cycleCount s + 2\<rparr>"

definition case_0x58 :: "NESemulator \<Rightarrow> NESemulator" where \<comment> \<open>CLI Clear Interrupt Disable\<close>
  "case_0x58 s = s\<lparr>flagInterruptDisable := False, cycleCount := cycleCount s + 2\<rparr>"

definition case_0xF8 :: "NESemulator \<Rightarrow> NESemulator" where \<comment> \<open>SED Set Decimal Flag\<close>
  "case_0xF8 s = s\<lparr>flagDecimal := True, cycleCount := cycleCount s + 2\<rparr>"

definition case_0xD8 :: "NESemulator \<Rightarrow> NESemulator" where \<comment> \<open>CLD Clear Decimal Flag\<close>
  "case_0xD8 s = s\<lparr>flagDecimal := False, cycleCount := cycleCount s + 2\<rparr>"

definition case_0x08 :: "NESemulator \<Rightarrow> NESemulator" where \<comment> \<open>PHP Push Processor Status\<close>
  "case_0x08 s =
     (let status = packStatus s;
          s = pushStack status s
      in s\<lparr>cycleCount := cycleCount s + 3\<rparr>)"

definition case_0x28 :: "NESemulator \<Rightarrow> NESemulator" where \<comment> \<open>PLP Pull Processor Status\<close>
  "case_0x28 s =
     (let (status, s) = pullStack s;
          s = unpackStatus status s
      in s\<lparr>cycleCount := cycleCount s + 4\<rparr>)"

definition case_0x0A :: "NESemulator \<Rightarrow> NESemulator" where \<comment> \<open>ASL Accumulator\<close>
  "case_0x0A s =
     (let s = s\<lparr>flagCarry := (A s > 127)\<rparr>;
          s = s\<lparr>A := push_bit 1 (A s)\<rparr>;
          s = s\<lparr>flagZero := (A s = 0), flagNegative := (A s > 127)\<rparr>
      in s\<lparr>cycleCount := cycleCount s + 2\<rparr>)"

definition case_0x06 :: "NESemulator \<Rightarrow> NESemulator" where \<comment> \<open>ASL Zero Page\<close>
  "case_0x06 s =
     (let (zp, s) = readMemory (programCounter s) s;
          s = s\<lparr>programCounter := programCounter s + 1\<rparr>;
          (v, s) = readMemory (ucast zp) s;
          s = s\<lparr>flagCarry := ((v AND 0x80) \<noteq> 0)\<rparr>;
          v = push_bit 1 v;
          s = writeMemory (ucast zp) v s;
          s = s\<lparr>flagZero := (v = 0), flagNegative := ((v AND 0x80) \<noteq> 0)\<rparr>
      in s\<lparr>cycleCount := cycleCount s + 5\<rparr>)"

definition case_0x0E :: "NESemulator \<Rightarrow> NESemulator" where \<comment> \<open>ASL Absolute\<close>
  "case_0x0E s =
     (let (low, s) = readMemory (programCounter s) s;
          s = s\<lparr>programCounter := programCounter s + 1\<rparr>;
          (high, s) = readMemory (programCounter s) s;
          s = s\<lparr>programCounter := programCounter s + 1\<rparr>;
          addr = addr16 high low;
          (v, s) = readMemory addr s;
          s = s\<lparr>flagCarry := ((v AND 0x80) \<noteq> 0)\<rparr>;
          v = push_bit 1 v;
          s = writeMemory addr v s;
          s = s\<lparr>flagZero := (v = 0), flagNegative := ((v AND 0x80) \<noteq> 0)\<rparr>
      in s\<lparr>cycleCount := cycleCount s + 6\<rparr>)"

definition case_0x26 :: "NESemulator \<Rightarrow> NESemulator" where \<comment> \<open>ROL Zero Page\<close>
  "case_0x26 s =
     (let (zp, s) = readMemory (programCounter s) s;
          s = s\<lparr>programCounter := programCounter s + 1\<rparr>;
          (v, s) = readMemory (ucast zp) s;
          oldCarry = flagCarry s;
          s = s\<lparr>flagCarry := ((v AND 0x80) \<noteq> 0)\<rparr>;
          v = push_bit 1 v OR (if oldCarry then 1 else 0);
          s = writeMemory (ucast zp) v s;
          s = s\<lparr>flagZero := (v = 0), flagNegative := ((v AND 0x80) \<noteq> 0)\<rparr>
      in s\<lparr>cycleCount := cycleCount s + 5\<rparr>)"

definition case_0x2E :: "NESemulator \<Rightarrow> NESemulator" where \<comment> \<open>ROL Absolute\<close>
  "case_0x2E s =
     (let s = readOperandsAbsoluteAddress s;
          (v, s) = readMemory (ucast (addressBus s)) s;
          s = opROL (ucast (addressBus s)) v s
      in s\<lparr>cycleCount := cycleCount s + 6\<rparr>)"

definition case_0x4A :: "NESemulator \<Rightarrow> NESemulator" where \<comment> \<open>LSR Accumulator\<close>
  "case_0x4A s =
     (let s = s\<lparr>flagCarry := ((A s AND 0x01) \<noteq> 0)\<rparr>;
          s = s\<lparr>A := drop_bit 1 (A s)\<rparr>;
          s = s\<lparr>flagZero := (A s = 0), flagNegative := False\<rparr>
      in s\<lparr>cycleCount := cycleCount s + 2\<rparr>)"

definition case_0x46 :: "NESemulator \<Rightarrow> NESemulator" where \<comment> \<open>LSR Zero Page\<close>
  "case_0x46 s =
     (let (zpAddr, s) = readMemory (programCounter s) s;
          s = s\<lparr>programCounter := programCounter s + 1\<rparr>;
          (v, s) = readMemory (ucast zpAddr) s;
          s = s\<lparr>flagCarry := ((v AND 1) \<noteq> 0)\<rparr>;
          v = drop_bit 1 v;
          s = writeMemory (ucast zpAddr) v s;
          s = s\<lparr>flagZero := (v = 0), flagNegative := False\<rparr>
      in s\<lparr>cycleCount := cycleCount s + 5\<rparr>)"

definition case_0x4E :: "NESemulator \<Rightarrow> NESemulator" where \<comment> \<open>LSR Absolute\<close>
  "case_0x4E s =
     (let s = readOperandsAbsoluteAddress s;
          (v, s) = readMemory (ucast (addressBus s)) s;
          s = s\<lparr>flagCarry := ((v AND 1) \<noteq> 0)\<rparr>;
          v = drop_bit 1 v;
          s = writeMemory (ucast (addressBus s)) v s
      in s\<lparr>cycleCount := cycleCount s + 6\<rparr>)"

definition case_0x6A :: "NESemulator \<Rightarrow> NESemulator" where \<comment> \<open>ROR Accumulator\<close>
  "case_0x6A s =
     (let oldCarry = flagCarry s;
          s = s\<lparr>flagCarry := ((A s AND 0x01) \<noteq> 0)\<rparr>;
          s = s\<lparr>A := drop_bit 1 (A s)\<rparr>;
          s = (if oldCarry then s\<lparr>A := A s OR 0x80\<rparr> else s);
          s = s\<lparr>flagZero := (A s = 0), flagNegative := ((A s AND 0x80) \<noteq> 0)\<rparr>
      in s\<lparr>cycleCount := cycleCount s + 2\<rparr>)"

definition case_0x66 :: "NESemulator \<Rightarrow> NESemulator" where \<comment> \<open>ROR Zero Page\<close>
  "case_0x66 s =
     (let (zpAddr, s) = readMemory (programCounter s) s;
          s = s\<lparr>programCounter := programCounter s + 1\<rparr>;
          (v, s) = readMemory (ucast zpAddr) s;
          futureFlagCarry = ((v AND 1) \<noteq> 0);
          v = drop_bit 1 v;
          v = (if flagCarry s then v OR 0x80 else v);
          s = writeMemory (ucast zpAddr) v s;
          s = s\<lparr>flagCarry := futureFlagCarry\<rparr>;
          s = s\<lparr>flagZero := (v = 0), flagNegative := (v > 127)\<rparr>
      in s\<lparr>cycleCount := cycleCount s + 5\<rparr>)"

definition case_0x6E :: "NESemulator \<Rightarrow> NESemulator" where \<comment> \<open>ROR Absolute\<close>
  "case_0x6E s =
     (let s = readOperandsAbsoluteAddress s;
          (v, s) = readMemory (ucast (addressBus s)) s;
          futureFlagCarry = ((v AND 1) \<noteq> 0);
          v = drop_bit 1 v;
          v = (if flagCarry s then v OR 0x80 else v);
          s = writeMemory (ucast (addressBus s)) v s;
          s = s\<lparr>flagCarry := futureFlagCarry\<rparr>;
          s = s\<lparr>flagZero := (v = 0), flagNegative := (v > 127)\<rparr>
      in s\<lparr>cycleCount := cycleCount s + 6\<rparr>)"

definition case_0x09 :: "NESemulator \<Rightarrow> NESemulator" where \<comment> \<open>ORA Immediate\<close>
  "case_0x09 s =
     (let (v, s) = readMemory (programCounter s) s;
          s = opORA v s;
          s = s\<lparr>programCounter := programCounter s + 1\<rparr>
      in s\<lparr>cycleCount := cycleCount s + 2\<rparr>)"

definition case_0x05 :: "NESemulator \<Rightarrow> NESemulator" where \<comment> \<open>ORA Zero Page\<close>
  "case_0x05 s =
     (let (address, s) = readMemory (programCounter s) s;
          (v, s) = readMemory (ucast address) s;
          s = opORA v s;
          s = s\<lparr>programCounter := programCounter s + 1\<rparr>
      in s\<lparr>cycleCount := cycleCount s + 3\<rparr>)"

definition case_0x0D :: "NESemulator \<Rightarrow> NESemulator" where \<comment> \<open>ORA Absolute\<close>
  "case_0x0D s =
     (let s = readOperandsAbsoluteAddress s;
          (v, s) = readMemory (ucast (addressBus s)) s;
          s = opORA v s
      in s\<lparr>cycleCount := cycleCount s + 4\<rparr>)"

definition case_0x29 :: "NESemulator \<Rightarrow> NESemulator" where \<comment> \<open>AND Immediate\<close>
  "case_0x29 s =
     (let (v, s) = readMemory (programCounter s) s;
          s = opAND v s;
          s = s\<lparr>programCounter := programCounter s + 1\<rparr>
      in s\<lparr>cycleCount := cycleCount s + 2\<rparr>)"

definition case_0x25 :: "NESemulator \<Rightarrow> NESemulator" where \<comment> \<open>AND Zero Page\<close>
  "case_0x25 s =
     (let (address, s) = readMemory (programCounter s) s;
          (v, s) = readMemory (ucast address) s;
          s = opAND v s;
          s = s\<lparr>programCounter := programCounter s + 1\<rparr>
      in s\<lparr>cycleCount := cycleCount s + 3\<rparr>)"

definition case_0x2D :: "NESemulator \<Rightarrow> NESemulator" where \<comment> \<open>AND Absolute\<close>
  "case_0x2D s =
     (let s = readOperandsAbsoluteAddress s;
          (v, s) = readMemory (ucast (addressBus s)) s;
          s = opAND v s
      in s\<lparr>cycleCount := cycleCount s + 4\<rparr>)"

definition case_0x49 :: "NESemulator \<Rightarrow> NESemulator" where \<comment> \<open>EOR Immediate\<close>
  "case_0x49 s =
     (let (v, s) = readMemory (programCounter s) s;
          s = opEOR v s;
          s = s\<lparr>programCounter := programCounter s + 1\<rparr>
      in s\<lparr>cycleCount := cycleCount s + 2\<rparr>)"

definition case_0x45 :: "NESemulator \<Rightarrow> NESemulator" where \<comment> \<open>EOR Zero Page\<close>
  "case_0x45 s =
     (let (address, s) = readMemory (programCounter s) s;
          (v, s) = readMemory (ucast address) s;
          s = opEOR v s;
          s = s\<lparr>programCounter := programCounter s + 1\<rparr>
      in s\<lparr>cycleCount := cycleCount s + 3\<rparr>)"

definition case_0x4D :: "NESemulator \<Rightarrow> NESemulator" where \<comment> \<open>EOR Absolute\<close>
  "case_0x4D s =
     (let s = readOperandsAbsoluteAddress s;
          (v, s) = readMemory (ucast (addressBus s)) s;
          s = opEOR v s
      in s\<lparr>cycleCount := cycleCount s + 4\<rparr>)"

text \<open>
  The cases labelled \<open>INC Zero Page\<close> and \<open>DEC Zero Page\<close> call
  \<open>readOperandsAbsoluteAddress\<close>, exactly as the absolute cases do; only the cycle cost
  differs.
\<close>

definition case_0xE6 :: "NESemulator \<Rightarrow> NESemulator" where \<comment> \<open>INC Zero Page\<close>
  "case_0xE6 s =
     (let s = readOperandsAbsoluteAddress s;
          (v, s) = readMemory (ucast (addressBus s)) s;
          s = opINC (ucast (addressBus s)) v s
      in s\<lparr>cycleCount := cycleCount s + 5\<rparr>)"

definition case_0xEE :: "NESemulator \<Rightarrow> NESemulator" where \<comment> \<open>INC Absolute\<close>
  "case_0xEE s =
     (let s = readOperandsAbsoluteAddress s;
          (v, s) = readMemory (ucast (addressBus s)) s;
          s = opINC (ucast (addressBus s)) v s
      in s\<lparr>cycleCount := cycleCount s + 6\<rparr>)"

definition case_0xC6 :: "NESemulator \<Rightarrow> NESemulator" where \<comment> \<open>DEC Zero Page\<close>
  "case_0xC6 s =
     (let s = readOperandsAbsoluteAddress s;
          (v, s) = readMemory (ucast (addressBus s)) s;
          s = opDEC (ucast (addressBus s)) v s
      in s\<lparr>cycleCount := cycleCount s + 5\<rparr>)"

definition case_0xCE :: "NESemulator \<Rightarrow> NESemulator" where \<comment> \<open>DEC Absolute\<close>
  "case_0xCE s =
     (let s = readOperandsAbsoluteAddress s;
          (v, s) = readMemory (ucast (addressBus s)) s;
          s = opDEC (ucast (addressBus s)) v s
      in s\<lparr>cycleCount := cycleCount s + 6\<rparr>)"

definition case_0x69 :: "NESemulator \<Rightarrow> NESemulator" where \<comment> \<open>ADC Immediate\<close>
  "case_0x69 s =
     (let (v, s) = readMemory (programCounter s) s;
          s = opADC v s;
          s = s\<lparr>programCounter := programCounter s + 1\<rparr>
      in s\<lparr>cycleCount := cycleCount s + 2\<rparr>)"

definition case_0x65 :: "NESemulator \<Rightarrow> NESemulator" where \<comment> \<open>ADC Zero Page\<close>
  "case_0x65 s =
     (let (address, s) = readMemory (programCounter s) s;
          (v, s) = readMemory (ucast address) s;
          s = opADC v s;
          s = s\<lparr>programCounter := programCounter s + 1\<rparr>
      in s\<lparr>cycleCount := cycleCount s + 3\<rparr>)"

definition case_0x6D :: "NESemulator \<Rightarrow> NESemulator" where \<comment> \<open>ADC Absolute\<close>
  "case_0x6D s =
     (let s = readOperandsAbsoluteAddress s;
          (v, s) = readMemory (ucast (addressBus s)) s;
          s = opADC v s
      in s\<lparr>cycleCount := cycleCount s + 4\<rparr>)"

definition case_0xE9 :: "NESemulator \<Rightarrow> NESemulator" where \<comment> \<open>SBC Immediate\<close>
  "case_0xE9 s =
     (let (v, s) = readMemory (programCounter s) s;
          s = opSBC v s;
          s = s\<lparr>programCounter := programCounter s + 1\<rparr>
      in s\<lparr>cycleCount := cycleCount s + 2\<rparr>)"

definition case_0xE5 :: "NESemulator \<Rightarrow> NESemulator" where \<comment> \<open>SBC Zero Page\<close>
  "case_0xE5 s =
     (let (address, s) = readMemory (programCounter s) s;
          (v, s) = readMemory (ucast address) s;
          s = opSBC v s;
          s = s\<lparr>programCounter := programCounter s + 1\<rparr>
      in s\<lparr>cycleCount := cycleCount s + 3\<rparr>)"

definition case_0xED :: "NESemulator \<Rightarrow> NESemulator" where \<comment> \<open>SBC Absolute\<close>
  "case_0xED s =
     (let s = readOperandsAbsoluteAddress s;
          (v, s) = readMemory (ucast (addressBus s)) s;
          s = opSBC v s
      in s\<lparr>cycleCount := cycleCount s + 4\<rparr>)"

definition case_0xC9 :: "NESemulator \<Rightarrow> NESemulator" where \<comment> \<open>CMP Immediate\<close>
  "case_0xC9 s =
     (let (v, s) = readMemory (programCounter s) s;
          s = opCMP v s;
          s = s\<lparr>programCounter := programCounter s + 1\<rparr>
      in s\<lparr>cycleCount := cycleCount s + 2\<rparr>)"

definition case_0xC5 :: "NESemulator \<Rightarrow> NESemulator" where \<comment> \<open>CMP Zero Page\<close>
  "case_0xC5 s =
     (let (address, s) = readMemory (programCounter s) s;
          (v, s) = readMemory (ucast address) s;
          s = opCMP v s;
          s = s\<lparr>programCounter := programCounter s + 1\<rparr>
      in s\<lparr>cycleCount := cycleCount s + 3\<rparr>)"

definition case_0xCD :: "NESemulator \<Rightarrow> NESemulator" where \<comment> \<open>CMP Absolute\<close>
  "case_0xCD s =
     (let s = readOperandsAbsoluteAddress s;
          (v, s) = readMemory (ucast (addressBus s)) s;
          s = opCMP v s
      in s\<lparr>cycleCount := cycleCount s + 4\<rparr>)"

text \<open>
  CPX and CPY are written inline. Their Negative flag is \<open>(_X - value > 127)\<close>, a
  comparison of the promoted \<open>int\<close> difference, which is negative when the register is
  the smaller one.
\<close>

definition case_0xE0 :: "NESemulator \<Rightarrow> NESemulator" where \<comment> \<open>CPX Immediate\<close>
  "case_0xE0 s =
     (let (v, s) = readMemory (programCounter s) s;
          s = s\<lparr>flagCarry := (X s \<ge> v), flagZero := (X s = v),
                 flagNegative := (uint (X s) - uint v > 127)\<rparr>;
          s = s\<lparr>programCounter := programCounter s + 1\<rparr>
      in s\<lparr>cycleCount := cycleCount s + 2\<rparr>)"

definition case_0xE4 :: "NESemulator \<Rightarrow> NESemulator" where \<comment> \<open>CPX Zero Page\<close>
  "case_0xE4 s =
     (let (address, s) = readMemory (programCounter s) s;
          (v, s) = readMemory (ucast address) s;
          s = s\<lparr>flagCarry := (X s \<ge> v), flagZero := (X s = v),
                 flagNegative := (uint (X s) - uint v > 127)\<rparr>;
          s = s\<lparr>programCounter := programCounter s + 1\<rparr>
      in s\<lparr>cycleCount := cycleCount s + 3\<rparr>)"

definition case_0xEC :: "NESemulator \<Rightarrow> NESemulator" where \<comment> \<open>CPX Absolute\<close>
  "case_0xEC s =
     (let s = readOperandsAbsoluteAddress s;
          (v, s) = readMemory (ucast (addressBus s)) s;
          s = s\<lparr>flagCarry := (X s \<ge> v), flagZero := (X s = v),
                 flagNegative := (uint (X s) - uint v > 127)\<rparr>
      in s\<lparr>cycleCount := cycleCount s + 4\<rparr>)"

definition case_0xC0 :: "NESemulator \<Rightarrow> NESemulator" where \<comment> \<open>CPY Immediate\<close>
  "case_0xC0 s =
     (let (v, s) = readMemory (programCounter s) s;
          s = s\<lparr>flagCarry := (Y s \<ge> v), flagZero := (Y s = v),
                 flagNegative := (uint (Y s) - uint v > 127)\<rparr>;
          s = s\<lparr>programCounter := programCounter s + 1\<rparr>
      in s\<lparr>cycleCount := cycleCount s + 2\<rparr>)"

definition case_0xC4 :: "NESemulator \<Rightarrow> NESemulator" where \<comment> \<open>CPY Zero Page\<close>
  "case_0xC4 s =
     (let (address, s) = readMemory (programCounter s) s;
          (v, s) = readMemory (ucast address) s;
          s = s\<lparr>flagCarry := (Y s \<ge> v), flagZero := (Y s = v),
                 flagNegative := (uint (Y s) - uint v > 127)\<rparr>;
          s = s\<lparr>programCounter := programCounter s + 1\<rparr>
      in s\<lparr>cycleCount := cycleCount s + 3\<rparr>)"

definition case_0xCC :: "NESemulator \<Rightarrow> NESemulator" where \<comment> \<open>CPY Absolute\<close>
  "case_0xCC s =
     (let s = readOperandsAbsoluteAddress s;
          (v, s) = readMemory (ucast (addressBus s)) s;
          s = s\<lparr>flagCarry := (Y s \<ge> v), flagZero := (Y s = v),
                 flagNegative := (uint (Y s) - uint v > 127)\<rparr>
      in s\<lparr>cycleCount := cycleCount s + 4\<rparr>)"

definition case_0x24 :: "NESemulator \<Rightarrow> NESemulator" where \<comment> \<open>BIT Zero Page\<close>
  "case_0x24 s =
     (let (address, s) = readMemory (programCounter s) s;
          (v, s) = readMemory (ucast address) s;
          s = opBIT v s;
          s = s\<lparr>programCounter := programCounter s + 1\<rparr>
      in s\<lparr>cycleCount := cycleCount s + 3\<rparr>)"

definition case_0x2C :: "NESemulator \<Rightarrow> NESemulator" where \<comment> \<open>BIT Absolute\<close>
  "case_0x2C s =
     (let s = readOperandsAbsoluteAddress s;
          (v, s) = readMemory (ucast (addressBus s)) s;
          s = opBIT v s
      in s\<lparr>cycleCount := cycleCount s + 4\<rparr>)"

definition case_0x00 :: "NESemulator \<Rightarrow> NESemulator" where \<comment> \<open>BRK Force Interrupt\<close>
  "case_0x00 s =
     (let s = s\<lparr>programCounter := programCounter s + 1\<rparr>;
          returnPC = programCounter s;
          s = pushStack (ucast (drop_bit 8 returnPC)) s;
          s = pushStack (ucast (returnPC AND 0xFF)) s;
          status = packStatus s;
          s = pushStack status s;
          s = s\<lparr>flagInterruptDisable := True\<rparr>;
          (pcl, s) = readMemory 0xFFFE s;
          (pch, s) = readMemory 0xFFFF s;
          s = s\<lparr>programCounter := addr16 pch pcl\<rparr>
      in s\<lparr>cycleCount := cycleCount s + 7\<rparr>)"

definition case_0x40 :: "NESemulator \<Rightarrow> NESemulator" where \<comment> \<open>RTI Return from Interrupt\<close>
  "case_0x40 s =
     (let (status, s) = pullStack s;
          s = unpackStatus status s;
          (tempLow, s) = pullStack s;
          (tempHigh, s) = pullStack s;
          s = s\<lparr>programCounter := addr16 tempHigh tempLow\<rparr>
      in s\<lparr>cycleCount := cycleCount s + 6\<rparr>)"

definition case_0x4C :: "NESemulator \<Rightarrow> NESemulator" where \<comment> \<open>JMP Absolute\<close>
  "case_0x4C s =
     (let (tempLow, s) = readMemory (programCounter s) s;
          s = s\<lparr>programCounter := programCounter s + 1\<rparr>;
          (tempHigh, s) = readMemory (programCounter s) s;
          s = s\<lparr>programCounter := programCounter s + 1\<rparr>;
          s = s\<lparr>programCounter := addr16 tempHigh tempLow\<rparr>
      in s\<lparr>cycleCount := cycleCount s + 3\<rparr>)"

definition case_0x70 :: "NESemulator \<Rightarrow> NESemulator" where \<comment> \<open>BVS Branch on Overflow Set\<close>
  "case_0x70 s = branchOn (\<lambda>s. flagOverflow s) s"

definition case_0xB0 :: "NESemulator \<Rightarrow> NESemulator" where \<comment> \<open>BCS Branch on Carry Set\<close>
  "case_0xB0 s = branchOn (\<lambda>s. flagCarry s) s"

definition case_0x90 :: "NESemulator \<Rightarrow> NESemulator" where \<comment> \<open>BCC Branch on Carry Clear\<close>
  "case_0x90 s = branchOn (\<lambda>s. \<not> flagCarry s) s"

definition case_0x50 :: "NESemulator \<Rightarrow> NESemulator" where \<comment> \<open>BVC Branch on Overflow Clear\<close>
  "case_0x50 s = branchOn (\<lambda>s. \<not> flagOverflow s) s"

definition case_0xB9 :: "NESemulator \<Rightarrow> NESemulator" where \<comment> \<open>LDA Absolute,Y\<close>
  "case_0xB9 s =
     (let (low, s) = readMemory (programCounter s) s;
          s = s\<lparr>programCounter := programCounter s + 1\<rparr>;
          (high, s) = readMemory (programCounter s) s;
          s = s\<lparr>programCounter := programCounter s + 1\<rparr>;
          baseAddr = addr16 high low;
          addr = baseAddr + ucast (Y s);
          (v, s) = readMemory addr s;
          s = s\<lparr>A := v\<rparr>;
          s = s\<lparr>flagZero := (A s = 0), flagNegative := ((A s AND 0x80) \<noteq> 0)\<rparr>;
          s = s\<lparr>cycleCount := cycleCount s + 4\<rparr>
      in if (baseAddr AND 0xFF00) \<noteq> (addr AND 0xFF00)
         then s\<lparr>cycleCount := cycleCount s + 1\<rparr> else s)"

definition case_0xBD :: "NESemulator \<Rightarrow> NESemulator" where \<comment> \<open>LDA Absolute,X\<close>
  "case_0xBD s =
     (let (low, s) = readMemory (programCounter s) s;
          s = s\<lparr>programCounter := programCounter s + 1\<rparr>;
          (high, s) = readMemory (programCounter s) s;
          s = s\<lparr>programCounter := programCounter s + 1\<rparr>;
          baseAddr = addr16 high low;
          addr = baseAddr + ucast (X s);
          (v, s) = readMemory addr s;
          s = s\<lparr>A := v\<rparr>;
          s = s\<lparr>flagZero := (A s = 0), flagNegative := ((A s AND 0x80) \<noteq> 0)\<rparr>;
          s = s\<lparr>cycleCount := cycleCount s + 4\<rparr>
      in if (baseAddr AND 0xFF00) \<noteq> (addr AND 0xFF00)
         then s\<lparr>cycleCount := cycleCount s + 1\<rparr> else s)"

definition case_0x6C :: "NESemulator \<Rightarrow> NESemulator" where \<comment> \<open>JMP Indirect\<close>
  "case_0x6C s =
     (let (ptrLow, s) = readMemory (programCounter s) s;
          s = s\<lparr>programCounter := programCounter s + 1\<rparr>;
          (ptrHigh, s) = readMemory (programCounter s) s;
          s = s\<lparr>programCounter := programCounter s + 1\<rparr>;
          ptr = addr16 ptrHigh ptrLow;
          (targetLow, s) = readMemory ptr s;
          (targetHigh, s) =
             (if (ptr AND 0x00FF) = 0x00FF then readMemory (ptr AND 0xFF00) s
              else readMemory (ptr + 1) s);
          s = s\<lparr>programCounter := addr16 targetHigh targetLow\<rparr>
      in s\<lparr>cycleCount := cycleCount s + 5\<rparr>)"

definition case_0x95 :: "NESemulator \<Rightarrow> NESemulator" where \<comment> \<open>STA Zero Page,X\<close>
  "case_0x95 s =
     (let (zpAddr, s) = readMemory (programCounter s) s;
          s = s\<lparr>programCounter := programCounter s + 1\<rparr>;
          s = writeMemory ((ucast zpAddr + ucast (X s)) AND 0x00FF) (A s) s
      in s\<lparr>cycleCount := cycleCount s + 4\<rparr>)"

definition case_0xB5 :: "NESemulator \<Rightarrow> NESemulator" where \<comment> \<open>LDA Zero Page,X\<close>
  "case_0xB5 s =
     (let (zp, s) = readMemory (programCounter s) s;
          s = s\<lparr>programCounter := programCounter s + 1\<rparr>;
          addr = zp + X s;
          (v, s) = readMemory (ucast addr) s;
          s = s\<lparr>A := v\<rparr>;
          s = s\<lparr>flagZero := (A s = 0), flagNegative := ((A s AND 0x80) \<noteq> 0)\<rparr>
      in s\<lparr>cycleCount := cycleCount s + 4\<rparr>)"

definition case_0x75 :: "NESemulator \<Rightarrow> NESemulator" where \<comment> \<open>ADC Zero Page,X\<close>
  "case_0x75 s =
     (let (zpAddr, s) = readMemory (programCounter s) s;
          s = s\<lparr>programCounter := programCounter s + 1\<rparr>;
          (v, s) = readMemory ((ucast zpAddr + ucast (X s)) AND 0x00FF) s;
          s = opADC v s
      in s\<lparr>cycleCount := cycleCount s + 4\<rparr>)"

definition case_0x91 :: "NESemulator \<Rightarrow> NESemulator" where \<comment> \<open>STA Zero Page,Y\<close>
  "case_0x91 s =
     (let (zp, s) = readMemory (programCounter s) s;
          s = s\<lparr>programCounter := programCounter s + 1\<rparr>;
          (ptrLow, s) = readMemory (ucast zp) s;
          (ptrHigh, s) = readMemory (ucast (zp + 1)) s;
          base = addr16 ptrHigh ptrLow;
          effective = base + ucast (Y s);
          s = writeMemory effective (A s) s
      in s\<lparr>cycleCount := cycleCount s + 6\<rparr>)"

definition case_0x81 :: "NESemulator \<Rightarrow> NESemulator" where \<comment> \<open>STA (Indirect,X)\<close>
  "case_0x81 s =
     (let (zp, s) = readMemory (programCounter s) s;
          s = s\<lparr>programCounter := programCounter s + 1\<rparr>;
          (ptrLow, s) = readMemory (ucast (zp + X s)) s;
          (ptrHigh, s) = readMemory (ucast (zp + X s + 1)) s;
          effective = addr16 ptrHigh ptrLow;
          s = writeMemory effective (A s) s
      in s\<lparr>cycleCount := cycleCount s + 6\<rparr>)"

section \<open>Dispatch, one step, and the run loop\<close>

text \<open>
  \<open>handleOpcode\<close>: the \<open>switch\<close> over the opcode, with the case labels in the order of
  the source. The \<open>default\<close> branch writes \<open>Unknown opcode\<close> to \<open>std::cerr\<close> and sets
  \<open>_cpuHalted\<close>.
\<close>

definition handleOpcode :: "byte \<Rightarrow> NESemulator \<Rightarrow> NESemulator" where
  "handleOpcode opcode s =
     (if opcode = 0x02 then case_0x02 s
      else if opcode = 0xA0 then case_0xA0 s
      else if opcode = 0xA2 then case_0xA2 s
      else if opcode = 0xA5 then case_0xA5 s
      else if opcode = 0xA9 then case_0xA9 s
      else if opcode = 0xAD then case_0xAD s
      else if opcode = 0x85 then case_0x85 s
      else if opcode = 0x8D then case_0x8D s
      else if opcode = 0x86 then case_0x86 s
      else if opcode = 0x8E then case_0x8E s
      else if opcode = 0x84 then case_0x84 s
      else if opcode = 0x8C then case_0x8C s
      else if opcode = 0x10 then case_0x10 s
      else if opcode = 0x30 then case_0x30 s
      else if opcode = 0xD0 then case_0xD0 s
      else if opcode = 0xF0 then case_0xF0 s
      else if opcode = 0x48 then case_0x48 s
      else if opcode = 0x68 then case_0x68 s
      else if opcode = 0x20 then case_0x20 s
      else if opcode = 0x60 then case_0x60 s
      else if opcode = 0xEA then case_0xEA s
      else if opcode = 0xE8 then case_0xE8 s
      else if opcode = 0xC8 then case_0xC8 s
      else if opcode = 0xCA then case_0xCA s
      else if opcode = 0x88 then case_0x88 s
      else if opcode = 0xAA then case_0xAA s
      else if opcode = 0x8A then case_0x8A s
      else if opcode = 0xA8 then case_0xA8 s
      else if opcode = 0x98 then case_0x98 s
      else if opcode = 0x9A then case_0x9A s
      else if opcode = 0xBA then case_0xBA s
      else if opcode = 0x38 then case_0x38 s
      else if opcode = 0x18 then case_0x18 s
      else if opcode = 0xB8 then case_0xB8 s
      else if opcode = 0x78 then case_0x78 s
      else if opcode = 0x58 then case_0x58 s
      else if opcode = 0xF8 then case_0xF8 s
      else if opcode = 0xD8 then case_0xD8 s
      else if opcode = 0x08 then case_0x08 s
      else if opcode = 0x28 then case_0x28 s
      else if opcode = 0x0A then case_0x0A s
      else if opcode = 0x06 then case_0x06 s
      else if opcode = 0x0E then case_0x0E s
      else if opcode = 0x26 then case_0x26 s
      else if opcode = 0x2E then case_0x2E s
      else if opcode = 0x4A then case_0x4A s
      else if opcode = 0x46 then case_0x46 s
      else if opcode = 0x4E then case_0x4E s
      else if opcode = 0x6A then case_0x6A s
      else if opcode = 0x66 then case_0x66 s
      else if opcode = 0x6E then case_0x6E s
      else if opcode = 0x09 then case_0x09 s
      else if opcode = 0x05 then case_0x05 s
      else if opcode = 0x0D then case_0x0D s
      else if opcode = 0x29 then case_0x29 s
      else if opcode = 0x25 then case_0x25 s
      else if opcode = 0x2D then case_0x2D s
      else if opcode = 0x49 then case_0x49 s
      else if opcode = 0x45 then case_0x45 s
      else if opcode = 0x4D then case_0x4D s
      else if opcode = 0xE6 then case_0xE6 s
      else if opcode = 0xEE then case_0xEE s
      else if opcode = 0xC6 then case_0xC6 s
      else if opcode = 0xCE then case_0xCE s
      else if opcode = 0x69 then case_0x69 s
      else if opcode = 0x65 then case_0x65 s
      else if opcode = 0x6D then case_0x6D s
      else if opcode = 0xE9 then case_0xE9 s
      else if opcode = 0xE5 then case_0xE5 s
      else if opcode = 0xED then case_0xED s
      else if opcode = 0xC9 then case_0xC9 s
      else if opcode = 0xC5 then case_0xC5 s
      else if opcode = 0xCD then case_0xCD s
      else if opcode = 0xE0 then case_0xE0 s
      else if opcode = 0xE4 then case_0xE4 s
      else if opcode = 0xEC then case_0xEC s
      else if opcode = 0xC0 then case_0xC0 s
      else if opcode = 0xC4 then case_0xC4 s
      else if opcode = 0xCC then case_0xCC s
      else if opcode = 0x24 then case_0x24 s
      else if opcode = 0x2C then case_0x2C s
      else if opcode = 0x00 then case_0x00 s
      else if opcode = 0x40 then case_0x40 s
      else if opcode = 0x4C then case_0x4C s
      else if opcode = 0x70 then case_0x70 s
      else if opcode = 0xB0 then case_0xB0 s
      else if opcode = 0x90 then case_0x90 s
      else if opcode = 0x50 then case_0x50 s
      else if opcode = 0xB9 then case_0xB9 s
      else if opcode = 0xBD then case_0xBD s
      else if opcode = 0x6C then case_0x6C s
      else if opcode = 0x95 then case_0x95 s
      else if opcode = 0xB5 then case_0xB5 s
      else if opcode = 0x75 then case_0x75 s
      else if opcode = 0x91 then case_0x91 s
      else if opcode = 0x81 then case_0x81 s
      else s\<lparr>cerr := cerr s @ [UnknownOpcode opcode], cpuHalted := True\<rparr>)"

text \<open>The case labels of the \<open>switch\<close>, in source order.\<close>

definition supported_opcodes :: "byte list" where
  "supported_opcodes =
     [0x02, 0xA0, 0xA2, 0xA5, 0xA9, 0xAD, 0x85, 0x8D, 0x86, 0x8E, 0x84, 0x8C, 0x10,
      0x30, 0xD0, 0xF0, 0x48, 0x68, 0x20, 0x60, 0xEA, 0xE8, 0xC8, 0xCA, 0x88, 0xAA,
      0x8A, 0xA8, 0x98, 0x9A, 0xBA, 0x38, 0x18, 0xB8, 0x78, 0x58, 0xF8, 0xD8, 0x08,
      0x28, 0x0A, 0x06, 0x0E, 0x26, 0x2E, 0x4A, 0x46, 0x4E, 0x6A, 0x66, 0x6E, 0x09,
      0x05, 0x0D, 0x29, 0x25, 0x2D, 0x49, 0x45, 0x4D, 0xE6, 0xEE, 0xC6, 0xCE, 0x69,
      0x65, 0x6D, 0xE9, 0xE5, 0xED, 0xC9, 0xC5, 0xCD, 0xE0, 0xE4, 0xEC, 0xC0, 0xC4,
      0xCC, 0x24, 0x2C, 0x00, 0x40, 0x4C, 0x70, 0xB0, 0x90, 0x50, 0xB9, 0xBD, 0x6C,
      0x95, 0xB5, 0x75, 0x91, 0x81]"

definition emulateCPU :: "NESemulator \<Rightarrow> NESemulator" where
  "emulateCPU s =
     (let (opcode, s) = readMemory (programCounter s) s;
          s = s\<lparr>programCounter := programCounter s + 1\<rparr>
      in handleOpcode opcode s)"

text \<open>
  The body of the loop in \<open>run\<close>: \<open>traceLog(readMemory(_programCounter))\<close>, whose read
  can itself report an invalid address (the printed trace is output only), and then
  \<open>emulateCPU()\<close>.
\<close>

definition runIteration :: "NESemulator \<Rightarrow> NESemulator" where
  "runIteration s =
     (let (opcode, s) = readMemory (programCounter s) s
      in emulateCPU s)"

text \<open>
  \<open>run\<close>: \<open>int i = 0; while (!_cpuHalted && i < 1000) { ...; i++; }\<close>. The
  function returns the final value of the counter \<open>i\<close>, which is the number of
  iterations performed, together with the final state.
\<close>

function run_loop :: "int \<Rightarrow> NESemulator \<Rightarrow> int \<times> NESemulator" where
  "run_loop i s =
     (if \<not> cpuHalted s \<and> i < 1000 then run_loop (i + 1) (runIteration s) else (i, s))"
  by pat_completeness auto
termination
  by (relation "measure (\<lambda>(i, s). nat (1000 - i))") auto

definition run :: "NESemulator \<Rightarrow> int \<times> NESemulator" where
  "run s = run_loop 0 s"

section \<open>Reset and image load\<close>

text \<open>
  The ROM file as \<open>reset\<close> meets it: it cannot be opened, it cannot be read, or it
  yields its bytes (the vector \<open>headeredRom\<close>).
\<close>

datatype rom_file = CannotOpen | CannotRead | Contents "byte list"

text \<open>
  \<open>std::copy(first, last, dest)\<close> over a vector. The source calls it with fixed offsets
  and never compares them with the size of the vector; a range that ends beyond the end
  of the vector is a read past the end of the input (undefined behaviour in C++), which
  the model returns as a fault instead of a state.
\<close>

datatype fault = ReadPastEndOfInput

definition std_copy ::
  "byte list \<Rightarrow> nat \<Rightarrow> nat \<Rightarrow> (nat \<Rightarrow> byte) \<Rightarrow> fault + (nat \<Rightarrow> byte)" where
  "std_copy v first_ix last_ix dest =
     (if last_ix \<le> length v
      then Inr (\<lambda>i. if i < last_ix - first_ix then v ! (first_ix + i) else dest i)
      else Inl ReadPastEndOfInput)"

definition reset :: "rom_file \<Rightarrow> NESemulator \<Rightarrow> fault + NESemulator" where
  "reset file s =
     (let s = s\<lparr>programCounter := 0, A := 0, X := 0, Y := 0,
                 flagCarry := False, flagZero := False, flagInterruptDisable := True,
                 flagDecimal := False, flagOverflow := False, flagNegative := False,
                 stackPointer := 0xFD\<rparr>
      in case file of
           CannotOpen \<Rightarrow> Inr (s\<lparr>cerr := cerr s @ [FailedToOpenROM]\<rparr>)
         | CannotRead \<Rightarrow> Inr (s\<lparr>cerr := cerr s @ [FailedToReadROM]\<rparr>)
         | Contents headeredRom \<Rightarrow>
             (case std_copy headeredRom 0 0x10 (header s) of
                Inl f \<Rightarrow> Inl f
              | Inr h \<Rightarrow>
                  (case std_copy headeredRom 0x10 (0x10 + 0x8000) (rom s) of
                     Inl f \<Rightarrow> Inl f
                   | Inr r \<Rightarrow>
                       (let s = s\<lparr>header := h, rom := r\<rparr>;
                            (PCL, s) = readMemory 0xFFFC s;
                            (PCH, s) = readMemory 0xFFFD s
                        in Inr (s\<lparr>programCounter := addr16 PCH PCL\<rparr>)))))"

section \<open>Example machines\<close>

text \<open>
  The machine as the constructor leaves it: RAM and ROM filled with zeros, the registers
  zero, the stack pointer \<open>0xFF\<close>, not halted, no cycles counted, nothing written to
  \<open>std::cerr\<close>. The fields the constructor does not initialise (the flags, the header
  and \<open>_addressBus\<close>) are zero and false here. The examples below set the fields they
  need on top of it.
\<close>

definition constructed :: NESemulator where
  "constructed =
     \<lparr>programCounter = 0, A = 0, X = 0, Y = 0, addressBus = 0,
      header = (\<lambda>i. 0), ram = (\<lambda>i. 0), rom = (\<lambda>i. 0),
      flagCarry = False, flagZero = False, flagInterruptDisable = False,
      flagDecimal = False, flagOverflow = False, flagNegative = False,
      stackPointer = 0xFF, cpuHalted = False, cycleCount = 0, cerr = []\<rparr>"

text \<open>\<open>BEQ +0x10\<close> at \<open>0x8000\<close>, Zero flag clear.\<close>

definition beq_not_taken :: NESemulator where
  "beq_not_taken =
     constructed\<lparr>programCounter := 0x8000, rom := (\<lambda>i. 0)(0 := 0xF0, 1 := 0x10)\<rparr>"

text \<open>
  \<open>BEQ +0x10\<close> at \<open>0x80FD\<close>, Zero flag set: the fall-through address is \<open>0x80FF\<close>
  and the target \<open>0x810F\<close> lies in the next page.
\<close>

definition beq_page_cross :: NESemulator where
  "beq_page_cross =
     constructed\<lparr>programCounter := 0x80FD, rom := (\<lambda>i. 0)(0xFD := 0xF0, 0xFE := 0x10),
       flagZero := True\<rparr>"

text \<open>
  \<open>LSR $0010\<close> (absolute) at \<open>0x8000\<close> with the byte 2 at RAM \<open>0x10\<close>, Zero and
  Negative set beforehand.
\<close>

definition lsr_absolute_example :: NESemulator where
  "lsr_absolute_example =
     constructed\<lparr>programCounter := 0x8000, rom := (\<lambda>i. 0)(0 := 0x4E, 1 := 0x10, 2 := 0x00),
       ram := (\<lambda>i. 0)(0x10 := 0x02), flagZero := True, flagNegative := True\<rparr>"

text \<open>\<open>INC $10\<close> (zero page) at \<open>0x8000\<close>, followed by a \<open>NOP\<close> at \<open>0x8002\<close>.\<close>

definition inc_zero_page_example :: NESemulator where
  "inc_zero_page_example =
     constructed\<lparr>programCounter := 0x8000, rom := (\<lambda>i. 0)(0 := 0xE6, 1 := 0x10, 2 := 0xEA)\<rparr>"

text \<open>The byte \<open>0xFF\<close>, which no case label matches, at \<open>0x8000\<close>.\<close>

definition unknown_opcode_example :: NESemulator where
  "unknown_opcode_example =
     constructed\<lparr>programCounter := 0x8000, rom := (\<lambda>i. 0)(0 := 0xFF)\<rparr>"

text \<open>
  \<open>JSR $8005\<close> at \<open>0x8000\<close> and \<open>RTS\<close> at \<open>0x8005\<close>, the stack pointer at its reset
  value \<open>0xFD\<close>.
\<close>

definition jsr_rts_example :: NESemulator where
  "jsr_rts_example =
     constructed\<lparr>programCounter := 0x8000,
       rom := (\<lambda>i. 0)(0 := 0x20, 1 := 0x05, 2 := 0x80, 5 := 0x60), stackPointer := 0xFD\<rparr>"

text \<open>
  The boundary operands of the ADC/SBC round trip: the accumulator \<open>0x7F\<close>, \<open>0x80\<close>
  and \<open>0xFF\<close> with the Carry flag clear, and \<open>0x7F\<close> with the Carry flag set.
\<close>

definition acc_7F :: NESemulator where
  "acc_7F = constructed\<lparr>A := 0x7F, flagCarry := False\<rparr>"

definition acc_80 :: NESemulator where
  "acc_80 = constructed\<lparr>A := 0x80, flagCarry := False\<rparr>"

definition acc_FF :: NESemulator where
  "acc_FF = constructed\<lparr>A := 0xFF, flagCarry := False\<rparr>"

definition acc_7F_carry :: NESemulator where
  "acc_7F_carry = constructed\<lparr>A := 0x7F, flagCarry := True\<rparr>"

text \<open>
  \<open>INC $0210\<close> (absolute) at \<open>0x8000\<close>: the operand bytes are \<open>0x10\<close> (low) and
  \<open>0x02\<close> (high).
\<close>

definition inc_absolute_example :: NESemulator where
  "inc_absolute_example =
     constructed\<lparr>programCounter := 0x8000, rom := (\<lambda>i. 0)(0 := 0xEE, 1 := 0x10, 2 := 0x02)\<rparr>"

text \<open>\<open>JMP $8000\<close> at \<open>0x8000\<close>: a program that jumps to itself for ever.\<close>

definition jmp_self_example :: NESemulator where
  "jmp_self_example =
     constructed\<lparr>programCounter := 0x8000, rom := (\<lambda>i. 0)(0 := 0x4C, 1 := 0x00, 2 := 0x80)\<rparr>"

text \<open>\<open>NOP\<close> at \<open>0x8000\<close> and the stop instruction \<open>0x02\<close> at \<open>0x8001\<close>.\<close>

definition nop_hlt_example :: NESemulator where
  "nop_hlt_example =
     constructed\<lparr>programCounter := 0x8000, rom := (\<lambda>i. 0)(0 := 0xEA, 1 := 0x02)\<rparr>"

text \<open>
  \<open>JSR $8005\<close> at \<open>0x8000\<close>; the subroutine is \<open>LDA #$77\<close>, \<open>STA $89FC\<close>, \<open>RTS\<close>.
  \<open>writeMemory\<close> stores at the address modulo \<open>0x800\<close>, and \<open>0x89FC\<close> modulo
  \<open>0x800\<close> is \<open>0x1FC\<close>, the stack cell that holds the low byte of the return address.
\<close>

definition jsr_overwritten_example :: NESemulator where
  "jsr_overwritten_example =
     constructed\<lparr>programCounter := 0x8000,
       rom := (\<lambda>i. 0)(0 := 0x20, 1 := 0x05, 2 := 0x80, 5 := 0xA9, 6 := 0x77,
                       7 := 0x8D, 8 := 0xFC, 9 := 0x89, 10 := 0x60),
       stackPointer := 0xFD\<rparr>"

section \<open>Notions derived for the proofs\<close>

text \<open>
  The two components of a read taken apart: the byte it returns, which depends on RAM and
  ROM only, and what it appends to \<open>std::cerr\<close>, which depends on the address only.
\<close>

definition memValue :: "NESemulator \<Rightarrow> ushort \<Rightarrow> byte" where
  "memValue s a = fst (readMemory a s)"

definition memReport :: "ushort \<Rightarrow> diagnostic list" where
  "memReport a = (if a < 0x800 \<or> 0x8000 \<le> a then [] else [InvalidMemoryRead a])"

text \<open>
  The RAM index that the low operand byte of an instruction denotes (the state is the one
  after the opcode fetch).
\<close>

definition operandCell :: "NESemulator \<Rightarrow> nat" where
  "operandCell s = unat (memValue s (programCounter s))"

section \<open>Basic facts about memory and the stack\<close>

text \<open>A read returns a value and can only append to \<open>cerr\<close>.\<close>

lemma readMemory_pair:
  "readMemory a s =
    (if a < 0x800 then ram s (unat a mod 0x800)
     else if 0x8000 \<le> a then rom s (unat (a - 0x8000)) else 0,
     s\<lparr>cerr := cerr s @ (if a < 0x800 \<or> 0x8000 \<le> a then [] else [InvalidMemoryRead a])\<rparr>)"
  by (simp add: readMemory_def)

lemma unat_byte_lt: "unat (b::byte) < 256"
  using unsigned_less [of b, where 'a=nat] by simp

lemma unat_ucast_byte: "unat (ucast (b::byte) :: ushort) = unat b"
  using unat_byte_lt [of b] by (simp add: unsigned_ucast_eq take_bit_nat_eq_self_iff)

lemma ucast_byte_lt: "(ucast (b::byte) :: ushort) < 0x800"
  using unat_byte_lt [of b] by (simp add: word_less_nat_alt unat_ucast_byte)

lemma stack_addr_unat: "unat (0x0100 + ucast (sp::byte) :: ushort) = 0x100 + unat sp"
  using unat_byte_lt [of sp] by (simp add: unat_word_ariths unat_ucast_byte)

lemma stack_addr_lt: "(0x0100 + ucast (sp::byte) :: ushort) < 0x800"
  using unat_byte_lt [of sp] by (simp add: word_less_nat_alt stack_addr_unat)

lemma addr16_split: "addr16 (ucast (drop_bit 8 r)) (ucast (r AND 0xFF)) = r"
proof -
  have m: "(0xFF::ushort) = mask 8" by (simp add: mask_eq_exp_minus_1)
  show ?thesis
    unfolding addr16_def m
    by (rule bit_word_eqI) (auto simp: bit_simps)
qed

lemma addr16_low: "ucast (addr16 high low) = low"
  unfolding addr16_def
  by (rule bit_word_eqI) (auto simp: bit_simps)

text \<open>Each case label dispatches to its case.\<close>

lemma handleOpcode_cases:
  "handleOpcode 0x02 s = case_0x02 s"
  "handleOpcode 0xA0 s = case_0xA0 s"
  "handleOpcode 0xA2 s = case_0xA2 s"
  "handleOpcode 0xA5 s = case_0xA5 s"
  "handleOpcode 0xA9 s = case_0xA9 s"
  "handleOpcode 0xAD s = case_0xAD s"
  "handleOpcode 0x85 s = case_0x85 s"
  "handleOpcode 0x8D s = case_0x8D s"
  "handleOpcode 0x86 s = case_0x86 s"
  "handleOpcode 0x8E s = case_0x8E s"
  "handleOpcode 0x84 s = case_0x84 s"
  "handleOpcode 0x8C s = case_0x8C s"
  "handleOpcode 0x10 s = case_0x10 s"
  "handleOpcode 0x30 s = case_0x30 s"
  "handleOpcode 0xD0 s = case_0xD0 s"
  "handleOpcode 0xF0 s = case_0xF0 s"
  "handleOpcode 0x48 s = case_0x48 s"
  "handleOpcode 0x68 s = case_0x68 s"
  "handleOpcode 0x20 s = case_0x20 s"
  "handleOpcode 0x60 s = case_0x60 s"
  "handleOpcode 0xEA s = case_0xEA s"
  "handleOpcode 0xE8 s = case_0xE8 s"
  "handleOpcode 0xC8 s = case_0xC8 s"
  "handleOpcode 0xCA s = case_0xCA s"
  "handleOpcode 0x88 s = case_0x88 s"
  "handleOpcode 0xAA s = case_0xAA s"
  "handleOpcode 0x8A s = case_0x8A s"
  "handleOpcode 0xA8 s = case_0xA8 s"
  "handleOpcode 0x98 s = case_0x98 s"
  "handleOpcode 0x9A s = case_0x9A s"
  "handleOpcode 0xBA s = case_0xBA s"
  "handleOpcode 0x38 s = case_0x38 s"
  "handleOpcode 0x18 s = case_0x18 s"
  "handleOpcode 0xB8 s = case_0xB8 s"
  "handleOpcode 0x78 s = case_0x78 s"
  "handleOpcode 0x58 s = case_0x58 s"
  "handleOpcode 0xF8 s = case_0xF8 s"
  "handleOpcode 0xD8 s = case_0xD8 s"
  "handleOpcode 0x08 s = case_0x08 s"
  "handleOpcode 0x28 s = case_0x28 s"
  "handleOpcode 0x0A s = case_0x0A s"
  "handleOpcode 0x06 s = case_0x06 s"
  "handleOpcode 0x0E s = case_0x0E s"
  "handleOpcode 0x26 s = case_0x26 s"
  "handleOpcode 0x2E s = case_0x2E s"
  "handleOpcode 0x4A s = case_0x4A s"
  "handleOpcode 0x46 s = case_0x46 s"
  "handleOpcode 0x4E s = case_0x4E s"
  "handleOpcode 0x6A s = case_0x6A s"
  "handleOpcode 0x66 s = case_0x66 s"
  "handleOpcode 0x6E s = case_0x6E s"
  "handleOpcode 0x09 s = case_0x09 s"
  "handleOpcode 0x05 s = case_0x05 s"
  "handleOpcode 0x0D s = case_0x0D s"
  "handleOpcode 0x29 s = case_0x29 s"
  "handleOpcode 0x25 s = case_0x25 s"
  "handleOpcode 0x2D s = case_0x2D s"
  "handleOpcode 0x49 s = case_0x49 s"
  "handleOpcode 0x45 s = case_0x45 s"
  "handleOpcode 0x4D s = case_0x4D s"
  "handleOpcode 0xE6 s = case_0xE6 s"
  "handleOpcode 0xEE s = case_0xEE s"
  "handleOpcode 0xC6 s = case_0xC6 s"
  "handleOpcode 0xCE s = case_0xCE s"
  "handleOpcode 0x69 s = case_0x69 s"
  "handleOpcode 0x65 s = case_0x65 s"
  "handleOpcode 0x6D s = case_0x6D s"
  "handleOpcode 0xE9 s = case_0xE9 s"
  "handleOpcode 0xE5 s = case_0xE5 s"
  "handleOpcode 0xED s = case_0xED s"
  "handleOpcode 0xC9 s = case_0xC9 s"
  "handleOpcode 0xC5 s = case_0xC5 s"
  "handleOpcode 0xCD s = case_0xCD s"
  "handleOpcode 0xE0 s = case_0xE0 s"
  "handleOpcode 0xE4 s = case_0xE4 s"
  "handleOpcode 0xEC s = case_0xEC s"
  "handleOpcode 0xC0 s = case_0xC0 s"
  "handleOpcode 0xC4 s = case_0xC4 s"
  "handleOpcode 0xCC s = case_0xCC s"
  "handleOpcode 0x24 s = case_0x24 s"
  "handleOpcode 0x2C s = case_0x2C s"
  "handleOpcode 0x00 s = case_0x00 s"
  "handleOpcode 0x40 s = case_0x40 s"
  "handleOpcode 0x4C s = case_0x4C s"
  "handleOpcode 0x70 s = case_0x70 s"
  "handleOpcode 0xB0 s = case_0xB0 s"
  "handleOpcode 0x90 s = case_0x90 s"
  "handleOpcode 0x50 s = case_0x50 s"
  "handleOpcode 0xB9 s = case_0xB9 s"
  "handleOpcode 0xBD s = case_0xBD s"
  "handleOpcode 0x6C s = case_0x6C s"
  "handleOpcode 0x95 s = case_0x95 s"
  "handleOpcode 0xB5 s = case_0xB5 s"
  "handleOpcode 0x75 s = case_0x75 s"
  "handleOpcode 0x91 s = case_0x91 s"
  "handleOpcode 0x81 s = case_0x81 s"
  by (simp_all add: handleOpcode_def)

lemma readMemory_split: "readMemory a s = (memValue s a, s\<lparr>cerr := cerr s @ memReport a\<rparr>)"
  by (simp add: memValue_def memReport_def readMemory_def)

lemma memValue_cong:
  assumes "ram s = ram t" and "rom s = rom t"
  shows "memValue s a = memValue t a"
  using assms by (simp add: memValue_def readMemory_def)

lemma memValue_updates [simp]:
  "memValue (s\<lparr>programCounter := pc'\<rparr>) a = memValue s a"
  "memValue (s\<lparr>A := ra\<rparr>) a = memValue s a"
  "memValue (s\<lparr>X := rx\<rparr>) a = memValue s a"
  "memValue (s\<lparr>Y := ry\<rparr>) a = memValue s a"
  "memValue (s\<lparr>addressBus := ab\<rparr>) a = memValue s a"
  "memValue (s\<lparr>header := h\<rparr>) a = memValue s a"
  "memValue (s\<lparr>flagCarry := f1\<rparr>) a = memValue s a"
  "memValue (s\<lparr>flagZero := f2\<rparr>) a = memValue s a"
  "memValue (s\<lparr>flagInterruptDisable := f3\<rparr>) a = memValue s a"
  "memValue (s\<lparr>flagDecimal := f4\<rparr>) a = memValue s a"
  "memValue (s\<lparr>flagOverflow := f5\<rparr>) a = memValue s a"
  "memValue (s\<lparr>flagNegative := f6\<rparr>) a = memValue s a"
  "memValue (s\<lparr>stackPointer := sp\<rparr>) a = memValue s a"
  "memValue (s\<lparr>cpuHalted := h'\<rparr>) a = memValue s a"
  "memValue (s\<lparr>cycleCount := c\<rparr>) a = memValue s a"
  "memValue (s\<lparr>cerr := l\<rparr>) a = memValue s a"
  by (simp_all add: memValue_def readMemory_def)

lemma memValue_ram: "a < 0x800 \<Longrightarrow> memValue s a = ram s (unat a mod 0x800)"
  by (simp add: memValue_def readMemory_def)

lemma memReport_ram: "a < 0x800 \<Longrightarrow> memReport a = []"
  by (simp add: memReport_def)

lemma stack_index: "unat (0x0100 + ucast (sp::byte) :: ushort) mod 0x800 = 0x100 + unat sp"
  using unat_byte_lt [of sp] by (simp add: stack_addr_unat)

lemma pushStack_eq:
  "pushStack v s =
     s\<lparr>ram := (ram s)(0x100 + unat (stackPointer s) := v), stackPointer := stackPointer s - 1\<rparr>"
  using stack_index [of "stackPointer s"]
  by (simp add: pushStack_def writeMemory_def Let_def)

lemma pullStack_eq:
  "pullStack s =
     (ram s (0x100 + unat (stackPointer s + 1)), s\<lparr>stackPointer := stackPointer s + 1\<rparr>)"
  using stack_index [of "stackPointer s + 1"] stack_addr_lt [of "stackPointer s + 1"]
  by (simp add: pullStack_def readMemory_split memValue_ram memReport_ram Let_def)

lemma fetch_nonzero_mapped:
  assumes "fst (readMemory a s) \<noteq> 0"
  shows "snd (readMemory a s) = s"
proof -
  have "a < 0x800 \<or> 0x8000 \<le> a"
    using assms by (auto simp: readMemory_def split: if_splits)
  then show ?thesis
    by (auto simp: readMemory_def)
qed

lemma emulateCPU_fetch:
  assumes "fst (readMemory (programCounter s) s) = opcode" and "opcode \<noteq> 0"
  shows "emulateCPU s = handleOpcode opcode (s\<lparr>programCounter := programCounter s + 1\<rparr>)"
proof -
  have "snd (readMemory (programCounter s) s) = s"
    using assms by (intro fetch_nonzero_mapped) simp
  then show ?thesis
    using assms(1) by (simp add: emulateCPU_def split_def Let_def)
qed

lemma ucast_low_byte: "(ucast ((r::ushort) AND 0xFF) :: byte) = ucast r"
proof -
  have m: "(0xFF::ushort) = mask 8" by (simp add: mask_eq_exp_minus_1)
  show ?thesis
    unfolding m by (rule bit_word_eqI) (auto simp: bit_simps)
qed

lemma unat_pred_neq: "unat ((sp::byte) - 1) \<noteq> unat sp"
proof
  assume "unat (sp - 1) = unat sp"
  then have "sp - 1 = sp" by (simp add: word_unat_eq_iff)
  then show False by simp
qed

section \<open>ADC and SBC\<close>

lemma test_bit7_int: "((x::int) AND 0x80 \<noteq> 0) = bit x 7"
  using bit_iff_and_push_bit_not_eq_0 [of x 7] by simp

lemma test_bit7_byte: "((x::byte) AND 0x80 \<noteq> 0) = bit x 7"
  using bit_iff_and_push_bit_not_eq_0 [of x 7] by simp

lemma test_bit8_ushort: "((x::ushort) AND 0x100 \<noteq> 0) = bit x 8"
  using bit_iff_and_push_bit_not_eq_0 [of x 8] by simp

lemma adc_word: "(word_of_int (uint (a::byte) + uint (b::byte) + (if c then 1 else 0)) :: byte) = a + b + of_bool c"
  by simp

lemma test2_bit7_int: "((x::int) AND y AND 0x80 \<noteq> 0) = (bit x 7 \<and> bit y 7)"
  using test_bit7_int [of "x AND y"] by (simp add: bit_simps and.assoc)

lemma test2_bit7_byte: "((x::byte) AND y AND 0x80 \<noteq> 0) = (bit x 7 \<and> bit y 7)"
  using test_bit7_byte [of "x AND y"] by (simp add: bit_simps and.assoc)

lemma adc_overflow_byte:
  "((NOT (uint (a::byte) XOR uint (b::byte)) AND (uint a XOR k) AND 0x80) \<noteq> 0)
     = ((NOT (a XOR b) AND (a XOR word_of_int k) AND 0x80) \<noteq> 0)"
  unfolding test2_bit7_int test2_bit7_byte
  by (simp add: bit_simps bit_uint_iff bit_word_of_int_iff)

lemma not_ucast_low: "(NOT (ucast (b::byte)) AND 0xFF :: ushort) = ucast (NOT b)"
proof -
  have m: "(0xFF::ushort) = mask 8" by (simp add: mask_eq_exp_minus_1)
  show ?thesis
    unfolding m by (rule bit_word_eqI) (auto simp: bit_simps)
qed

lemma sbc_unat:
  "unat (ucast (a::byte) + ucast (n::byte) + (if c then 1 else 0) :: ushort)
     = unat a + unat n + of_bool c"
  using unat_byte_lt [of a] unat_byte_lt [of n]
  by (simp add: unat_word_ariths unat_ucast_byte)

lemma sbc_word:
  "(ucast (ucast (a::byte) + ucast (n::byte) + (if c then 1 else 0) :: ushort) :: byte)
     = a + n + of_bool c"
proof -
  let ?i = "ucast a + ucast n + (if c then 1 else 0) :: ushort"
  have "(ucast ?i :: byte) = of_nat (unat ?i)"
    by simp
  also have "\<dots> = of_nat (unat a + unat n + of_bool c)"
    unfolding sbc_unat ..
  also have "\<dots> = a + n + of_bool c"
    by simp
  finally show ?thesis .
qed

lemma sbc_carry:
  "bit (ucast (a::byte) + ucast (n::byte) + (if c then 1 else 0) :: ushort) 8
     = (255 < unat a + unat n + (of_bool c :: nat))"
proof -
  let ?i = "ucast a + ucast n + (if c then 1 else 0) :: ushort"
  have lt: "unat ?i < 512"
    unfolding sbc_unat using unat_byte_lt [of a] unat_byte_lt [of n] by (cases c) simp_all
  have "bit ?i 8 = bit (unat ?i) 8"
    by (simp add: bit_unsigned_iff)
  also have "\<dots> = odd (unat ?i div 256)"
    by (simp add: bit_iff_odd)
  also have "\<dots> = (255 < unat ?i)"
  proof (cases "unat ?i < 256")
    case True
    then show ?thesis by simp
  next
    case False
    then have "unat ?i div 256 = 1" using lt by simp
    then show ?thesis using False by simp
  qed
  finally show ?thesis
    unfolding sbc_unat .
qed

lemma opADC_A: "A (opADC b s) = A s + b + of_bool (flagCarry s)"
  by (simp add: opADC_def Let_def)

lemma opADC_carry:
  "flagCarry (opADC b s) = (255 < uint (A s) + uint b + of_bool (flagCarry s))"
  by (simp add: opADC_def Let_def)

lemma opADC_overflow:
  "flagOverflow (opADC b s) = ((NOT (A s XOR b) AND (A s XOR A (opADC b s)) AND 0x80) \<noteq> 0)"
proof -
  let ?k = "uint (A s) + uint b + (if flagCarry s then 1 else 0)"
  have "flagOverflow (opADC b s) =
          ((NOT (uint (A s) XOR uint b) AND (uint (A s) XOR ?k) AND 0x80) \<noteq> 0)"
    by (simp add: opADC_def Let_def)
  also have "\<dots> = ((NOT (A s XOR b) AND (A s XOR word_of_int ?k) AND 0x80) \<noteq> 0)"
    by (rule adc_overflow_byte)
  also have "word_of_int ?k = A (opADC b s)"
    by (simp add: opADC_def Let_def)
  finally show ?thesis .
qed

lemma opSBC_A: "A (opSBC b s) = A s + NOT b + of_bool (flagCarry s)"
  by (simp add: opSBC_def Let_def not_ucast_low ucast_low_byte sbc_word)

lemma opSBC_carry:
  "flagCarry (opSBC b s) = (255 < unat (A s) + unat (NOT b) + (of_bool (flagCarry s) :: nat))"
  by (simp add: opSBC_def Let_def not_ucast_low test_bit8_ushort sbc_carry)

lemma opSBC_overflow:
  "flagOverflow (opSBC b s) = (((A s XOR A (opSBC b s)) AND (A s XOR b) AND 0x80) \<noteq> 0)"
  by (simp add: opSBC_def Let_def)

lemma byte_one_neq_zero: "of_bool c + of_bool c' = (1::byte) \<longleftrightarrow> c \<noteq> c'"
  by (cases c; cases c') simp_all

lemma adc_sbc_A:
  "A (opSBC b (opADC b s)) = A s + of_bool (flagCarry s) + of_bool (flagCarry (opADC b s)) - 1"
proof -
  have "b + NOT b = - 1" by (simp add: not_eq_complement)
  then have "A s + b + of_bool (flagCarry s) + NOT b + of_bool (flagCarry (opADC b s))
      = A s + of_bool (flagCarry s) + of_bool (flagCarry (opADC b s)) - 1"
    by (simp add: algebra_simps)
  then show ?thesis
    by (simp add: opSBC_A opADC_A)
qed

lemma adc_sbc_restores_iff:
  "(A (opSBC b (opADC b s)) = A s) = (flagCarry (opADC b s) \<noteq> flagCarry s)"
proof -
  let ?c = "flagCarry s" and ?c' = "flagCarry (opADC b s)"
  have "(A s + of_bool ?c + of_bool ?c' - 1 = A s) = (of_bool ?c + of_bool ?c' = (1::byte))"
    by (cases ?c; cases ?c') simp_all
  then show ?thesis
    unfolding adc_sbc_A byte_one_neq_zero by auto
qed

text \<open>
  C10, as the claim states it: ADC with operand \<open>b\<close> and then SBC with the same operand
  restores the accumulator for any initial Carry. With the accumulator \<open>0x7F\<close>, the
  operand \<open>0x01\<close> and the Carry flag clear (the first boundary input of the claim), ADC
  gives \<open>0x80\<close> without a carry, and SBC, which borrows when Carry is clear, gives
  \<open>0x7E\<close>.
\<close>

theorem adc_then_sbc_not_restored:
  "A acc_7F = 0x7F \<and> \<not> flagCarry acc_7F \<and> A (opSBC 0x01 (opADC 0x01 acc_7F)) = 0x7E"
  by (simp add: opSBC_A opADC_A opADC_carry acc_7F_def constructed_def)

text \<open>
  C10, amended. ADC leaves \<open>A + b + carry\<close> and SBC leaves \<open>A + NOT b + carry\<close> (both
  modulo 256), each with the Carry and Overflow flags of the sign-test formulas: Carry is
  the ninth bit of the unsigned sum, Overflow is bit 7 of \<open>NOT (A XOR b) AND (A XOR result)\<close>
  for ADC and of \<open>(A XOR result) AND (A XOR b)\<close> for SBC. ADC followed by SBC with the
  same operand therefore leaves the accumulator plus the initial Carry plus the Carry of the
  ADC minus one: the accumulator is restored exactly when the Carry produced by the ADC
  differs from the initial Carry. With Carry clear the boundary inputs \<open>(0x80, 0xFF)\<close>
  and \<open>(0xFF, 0x01)\<close> are restored and \<open>(0x7F, 0x01)\<close> is not; it is with Carry set.
\<close>

theorem adc_then_sbc:
  "(let s1 = opADC b s; s2 = opSBC b s1
    in A s1 = A s + b + of_bool (flagCarry s) \<and>
       flagCarry s1 = (255 < uint (A s) + uint b + of_bool (flagCarry s)) \<and>
       flagOverflow s1 = ((NOT (A s XOR b) AND (A s XOR A s1) AND 0x80) \<noteq> 0) \<and>
       A s2 = A s1 + NOT b + of_bool (flagCarry s1) \<and>
       flagCarry s2 = (255 < unat (A s1) + unat (NOT b) + (of_bool (flagCarry s1) :: nat)) \<and>
       flagOverflow s2 = (((A s1 XOR A s2) AND (A s1 XOR b) AND 0x80) \<noteq> 0) \<and>
       A s2 = A s + of_bool (flagCarry s) + of_bool (flagCarry s1) - 1 \<and>
       (A s2 = A s) = (flagCarry s1 \<noteq> flagCarry s)) \<and>
   (let s1 = opADC 0x01 acc_7F; s2 = opSBC 0x01 s1
    in A s1 = 0x80 \<and> \<not> flagCarry s1 \<and> flagOverflow s1 \<and>
       A s2 = 0x7E \<and> flagCarry s2 \<and> flagOverflow s2) \<and>
   (let s1 = opADC 0xFF acc_80; s2 = opSBC 0xFF s1
    in A s1 = 0x7F \<and> flagCarry s1 \<and> flagOverflow s1 \<and>
       A s2 = 0x80 \<and> \<not> flagCarry s2 \<and> flagOverflow s2) \<and>
   (let s1 = opADC 0x01 acc_FF; s2 = opSBC 0x01 s1
    in A s1 = 0x00 \<and> flagCarry s1 \<and> \<not> flagOverflow s1 \<and>
       A s2 = 0xFF \<and> \<not> flagCarry s2 \<and> \<not> flagOverflow s2) \<and>
   (let s1 = opADC 0x01 acc_7F_carry; s2 = opSBC 0x01 s1
    in A s1 = 0x81 \<and> \<not> flagCarry s1 \<and> flagOverflow s1 \<and>
       A s2 = 0x7F \<and> flagCarry s2 \<and> flagOverflow s2)"
proof -
  have general:
    "let s1 = opADC b s; s2 = opSBC b s1
     in A s1 = A s + b + of_bool (flagCarry s) \<and>
        flagCarry s1 = (255 < uint (A s) + uint b + of_bool (flagCarry s)) \<and>
        flagOverflow s1 = ((NOT (A s XOR b) AND (A s XOR A s1) AND 0x80) \<noteq> 0) \<and>
        A s2 = A s1 + NOT b + of_bool (flagCarry s1) \<and>
        flagCarry s2 = (255 < unat (A s1) + unat (NOT b) + (of_bool (flagCarry s1) :: nat)) \<and>
        flagOverflow s2 = (((A s1 XOR A s2) AND (A s1 XOR b) AND 0x80) \<noteq> 0) \<and>
        A s2 = A s + of_bool (flagCarry s) + of_bool (flagCarry s1) - 1 \<and>
        (A s2 = A s) = (flagCarry s1 \<noteq> flagCarry s)"
    unfolding Let_def
    using opADC_A [of b s] opADC_carry [of b s] opADC_overflow [of b s]
      opSBC_A [of b "opADC b s"] opSBC_carry [of b "opADC b s"]
      opSBC_overflow [of b "opADC b s"] adc_sbc_A [of b s] adc_sbc_restores_iff [of b s]
    by (intro conjI) assumption+
  have b1:
    "let s1 = opADC 0x01 acc_7F; s2 = opSBC 0x01 s1
     in A s1 = 0x80 \<and> \<not> flagCarry s1 \<and> flagOverflow s1 \<and>
        A s2 = 0x7E \<and> flagCarry s2 \<and> flagOverflow s2"
    by (simp add: opSBC_A opADC_A opADC_carry opSBC_carry opADC_overflow opSBC_overflow
        acc_7F_def constructed_def Let_def)
  have b2:
    "let s1 = opADC 0xFF acc_80; s2 = opSBC 0xFF s1
     in A s1 = 0x7F \<and> flagCarry s1 \<and> flagOverflow s1 \<and>
        A s2 = 0x80 \<and> \<not> flagCarry s2 \<and> flagOverflow s2"
    by (simp add: opSBC_A opADC_A opADC_carry opSBC_carry opADC_overflow opSBC_overflow
        acc_80_def constructed_def Let_def)
  have b3:
    "let s1 = opADC 0x01 acc_FF; s2 = opSBC 0x01 s1
     in A s1 = 0x00 \<and> flagCarry s1 \<and> \<not> flagOverflow s1 \<and>
        A s2 = 0xFF \<and> \<not> flagCarry s2 \<and> \<not> flagOverflow s2"
    by (simp add: opSBC_A opADC_A opADC_carry opSBC_carry opADC_overflow opSBC_overflow
        acc_FF_def constructed_def Let_def)
  have b4:
    "let s1 = opADC 0x01 acc_7F_carry; s2 = opSBC 0x01 s1
     in A s1 = 0x81 \<and> \<not> flagCarry s1 \<and> flagOverflow s1 \<and>
        A s2 = 0x7F \<and> flagCarry s2 \<and> flagOverflow s2"
    by (simp add: opSBC_A opADC_A opADC_carry opSBC_carry opADC_overflow opSBC_overflow
        acc_7F_carry_def constructed_def Let_def)
  show ?thesis
    using general b1 b2 b3 b4 by (intro conjI) assumption+
qed

section \<open>Operands resolved through readOperandsAbsoluteAddress\<close>

lemma unat_addr16_low: "unat (addr16 high low) mod 256 = unat low"
proof -
  have "unat (ucast (addr16 high low) :: byte) = unat (addr16 high low) mod 256"
    by (simp add: unsigned_ucast_eq take_bit_eq_mod)
  then show ?thesis by (simp add: addr16_low)
qed

lemma memValue_byte: "memValue s (ucast (b::byte)) = ram s (unat b)"
  using unat_byte_lt [of b]
  by (simp add: memValue_ram ucast_byte_lt unat_ucast_byte)

lemma memReport_byte: "memReport (ucast (b::byte)) = []"
  by (simp add: memReport_ram ucast_byte_lt)

lemma writeMemory_byte:
  "writeMemory (ucast (b::byte)) v s = s\<lparr>ram := (ram s)(unat b := v)\<rparr>"
  using unat_byte_lt [of b] by (simp add: writeMemory_def unat_ucast_byte)

lemma readOperandsAbsoluteAddress_eq:
  "readOperandsAbsoluteAddress s =
     s\<lparr>programCounter := programCounter s + 2,
       addressBus := memValue s (programCounter s),
       cerr := cerr s @ memReport (programCounter s) @ memReport (programCounter s + 1)\<rparr>"
  by (simp add: readOperandsAbsoluteAddress_def readMemory_split Let_def addr16_low)

lemmas absolute_helper_simps =
  readOperandsAbsoluteAddress_eq readMemory_split memValue_byte memReport_byte
  writeMemory_byte Let_def

lemma opADC_ram: "ram (opADC b s) = ram s"
  by (simp add: opADC_def Let_def)

lemma opSBC_ram: "ram (opSBC b s) = ram s"
  by (simp add: opSBC_def Let_def)

lemma rol_absolute:
  "ram (handleOpcode 0x2E s) =
     (ram s)(operandCell s :=
        (if flagCarry s then push_bit 1 (ram s (operandCell s)) OR 1 else push_bit 1 (ram s (operandCell s))))"
  unfolding handleOpcode_cases operandCell_def
  by (simp add: case_0x2E_def absolute_helper_simps opROL_def)

lemma lsr_absolute:
  "ram (handleOpcode 0x4E s) = (ram s)(operandCell s := drop_bit 1 (ram s (operandCell s)))"
  unfolding handleOpcode_cases operandCell_def
  by (simp add: case_0x4E_def absolute_helper_simps)

lemma ror_absolute:
  "ram (handleOpcode 0x6E s) =
     (ram s)(operandCell s :=
        (if flagCarry s then drop_bit 1 (ram s (operandCell s)) OR 0x80 else drop_bit 1 (ram s (operandCell s))))"
  unfolding handleOpcode_cases operandCell_def
  by (simp add: case_0x6E_def absolute_helper_simps)

lemma inc_zero_page:
  "ram (handleOpcode 0xE6 s) = (ram s)(operandCell s := ram s (operandCell s) + 1)"
  unfolding handleOpcode_cases operandCell_def
  by (simp add: case_0xE6_def absolute_helper_simps opINC_def)

lemma inc_absolute:
  "ram (handleOpcode 0xEE s) = (ram s)(operandCell s := ram s (operandCell s) + 1)"
  unfolding handleOpcode_cases operandCell_def
  by (simp add: case_0xEE_def absolute_helper_simps opINC_def)

lemma dec_zero_page:
  "ram (handleOpcode 0xC6 s) = (ram s)(operandCell s := ram s (operandCell s) - 1)"
  unfolding handleOpcode_cases operandCell_def
  by (simp add: case_0xC6_def absolute_helper_simps opDEC_def)

lemma dec_absolute:
  "ram (handleOpcode 0xCE s) = (ram s)(operandCell s := ram s (operandCell s) - 1)"
  unfolding handleOpcode_cases operandCell_def
  by (simp add: case_0xCE_def absolute_helper_simps opDEC_def)

lemma ora_absolute:
  "A (handleOpcode 0x0D s) = A s OR ram s (operandCell s) \<and>
   ram (handleOpcode 0x0D s) = ram s"
  unfolding handleOpcode_cases operandCell_def
  by (simp add: case_0x0D_def absolute_helper_simps opORA_def)

lemma and_absolute:
  "A (handleOpcode 0x2D s) = A s AND ram s (operandCell s) \<and>
   ram (handleOpcode 0x2D s) = ram s"
  unfolding handleOpcode_cases operandCell_def
  by (simp add: case_0x2D_def absolute_helper_simps opAND_def)

lemma eor_absolute:
  "A (handleOpcode 0x4D s) = A s XOR ram s (operandCell s) \<and>
   ram (handleOpcode 0x4D s) = ram s"
  unfolding handleOpcode_cases operandCell_def
  by (simp add: case_0x4D_def absolute_helper_simps opEOR_def)

lemma adc_absolute:
  "A (handleOpcode 0x6D s) = A s + ram s (operandCell s) + of_bool (flagCarry s) \<and>
   ram (handleOpcode 0x6D s) = ram s"
  unfolding handleOpcode_cases operandCell_def
  by (simp add: case_0x6D_def absolute_helper_simps opADC_A opADC_ram)

lemma sbc_absolute:
  "A (handleOpcode 0xED s) = A s + NOT (ram s (operandCell s)) + of_bool (flagCarry s) \<and>
   ram (handleOpcode 0xED s) = ram s"
  unfolding handleOpcode_cases operandCell_def
  by (simp add: case_0xED_def absolute_helper_simps opSBC_A opSBC_ram)

lemma cmp_absolute:
  "flagZero (handleOpcode 0xCD s) = (A s = ram s (operandCell s)) \<and>
   flagCarry (handleOpcode 0xCD s) = (ram s (operandCell s) \<le> A s) \<and>
   ram (handleOpcode 0xCD s) = ram s"
  unfolding handleOpcode_cases operandCell_def
  by (simp add: case_0xCD_def absolute_helper_simps opCMP_def)

lemma cpx_absolute:
  "flagZero (handleOpcode 0xEC s) = (X s = ram s (operandCell s)) \<and>
   flagCarry (handleOpcode 0xEC s) = (ram s (operandCell s) \<le> X s) \<and>
   ram (handleOpcode 0xEC s) = ram s"
  unfolding handleOpcode_cases operandCell_def
  by (simp add: case_0xEC_def absolute_helper_simps)

lemma cpy_absolute:
  "flagZero (handleOpcode 0xCC s) = (Y s = ram s (operandCell s)) \<and>
   flagCarry (handleOpcode 0xCC s) = (ram s (operandCell s) \<le> Y s) \<and>
   ram (handleOpcode 0xCC s) = ram s"
  unfolding handleOpcode_cases operandCell_def
  by (simp add: case_0xCC_def absolute_helper_simps)

lemma bit_absolute:
  "flagZero (handleOpcode 0x2C s) = (A s AND ram s (operandCell s) = 0) \<and>
   flagNegative (handleOpcode 0x2C s) = (ram s (operandCell s) AND 0x80 \<noteq> 0) \<and>
   flagOverflow (handleOpcode 0x2C s) = (ram s (operandCell s) AND 0x40 \<noteq> 0) \<and>
   ram (handleOpcode 0x2C s) = ram s"
  unfolding handleOpcode_cases operandCell_def
  by (simp add: case_0x2C_def absolute_helper_simps opBIT_def)

text \<open>
  C1. \<open>readOperandsAbsoluteAddress\<close> leaves the low operand byte in \<open>_addressBus\<close>: the
  16-bit operand address modulo 256. Every case that resolves its operand through it reads
  its operand from the RAM cell of that index and, when it writes, writes that cell and
  no other; the high operand byte does not occur in the result. The cases are ROL, LSR and
  ROR absolute, INC and DEC zero-page and absolute (which all store the new byte there),
  and ORA, AND, EOR, ADC, SBC, CMP, CPX, CPY and BIT absolute (which leave RAM as it is and
  combine the byte read with a register).
\<close>

theorem absolute_helper_accesses_low_byte:
  "let low = fst (readMemory (programCounter s) s);
       high = fst (readMemory (programCounter s + 1) s);
       loc = unat (addr16 high low) mod 256;
       v = ram s loc
   in loc = unat low \<and>
      addressBus (readOperandsAbsoluteAddress s) = low \<and>
      ram (handleOpcode 0x2E s) =
        (ram s)(loc := (if flagCarry s then push_bit 1 v OR 1 else push_bit 1 v)) \<and>
      ram (handleOpcode 0x4E s) = (ram s)(loc := drop_bit 1 v) \<and>
      ram (handleOpcode 0x6E s) =
        (ram s)(loc := (if flagCarry s then drop_bit 1 v OR 0x80 else drop_bit 1 v)) \<and>
      ram (handleOpcode 0xE6 s) = (ram s)(loc := v + 1) \<and>
      ram (handleOpcode 0xEE s) = (ram s)(loc := v + 1) \<and>
      ram (handleOpcode 0xC6 s) = (ram s)(loc := v - 1) \<and>
      ram (handleOpcode 0xCE s) = (ram s)(loc := v - 1) \<and>
      A (handleOpcode 0x0D s) = A s OR v \<and> ram (handleOpcode 0x0D s) = ram s \<and>
      A (handleOpcode 0x2D s) = A s AND v \<and> ram (handleOpcode 0x2D s) = ram s \<and>
      A (handleOpcode 0x4D s) = A s XOR v \<and> ram (handleOpcode 0x4D s) = ram s \<and>
      A (handleOpcode 0x6D s) = A s + v + of_bool (flagCarry s) \<and>
      ram (handleOpcode 0x6D s) = ram s \<and>
      A (handleOpcode 0xED s) = A s + NOT v + of_bool (flagCarry s) \<and>
      ram (handleOpcode 0xED s) = ram s \<and>
      flagZero (handleOpcode 0xCD s) = (A s = v) \<and>
      flagCarry (handleOpcode 0xCD s) = (v \<le> A s) \<and> ram (handleOpcode 0xCD s) = ram s \<and>
      flagZero (handleOpcode 0xEC s) = (X s = v) \<and>
      flagCarry (handleOpcode 0xEC s) = (v \<le> X s) \<and> ram (handleOpcode 0xEC s) = ram s \<and>
      flagZero (handleOpcode 0xCC s) = (Y s = v) \<and>
      flagCarry (handleOpcode 0xCC s) = (v \<le> Y s) \<and> ram (handleOpcode 0xCC s) = ram s \<and>
      flagZero (handleOpcode 0x2C s) = (A s AND v = 0) \<and>
      flagNegative (handleOpcode 0x2C s) = (v AND 0x80 \<noteq> 0) \<and>
      flagOverflow (handleOpcode 0x2C s) = (v AND 0x40 \<noteq> 0) \<and>
      ram (handleOpcode 0x2C s) = ram s"
  unfolding Let_def unat_addr16_low memValue_def [symmetric] operandCell_def [symmetric]
  using rol_absolute [of s] lsr_absolute [of s] ror_absolute [of s]
    inc_zero_page [of s] inc_absolute [of s] dec_zero_page [of s] dec_absolute [of s]
    ora_absolute [of s] and_absolute [of s] eor_absolute [of s] adc_absolute [of s]
    sbc_absolute [of s] cmp_absolute [of s] cpx_absolute [of s] cpy_absolute [of s]
    bit_absolute [of s]
  by (simp add: readOperandsAbsoluteAddress_eq)

text \<open>
  An instance: \<open>INC $0210\<close> increments the RAM cell \<open>0x10\<close> and leaves the cell
  \<open>0x210\<close> as it is.
\<close>

lemma inc_absolute_example_cell:
  "ram (emulateCPU inc_absolute_example) 0x10 = 1 \<and>
   ram (emulateCPU inc_absolute_example) 0x210 = 0"
  by (simp add: emulateCPU_def handleOpcode_cases case_0xEE_def readOperandsAbsoluteAddress_def
      readMemory_def writeMemory_def opINC_def addr16_def Let_def inc_absolute_example_def
      constructed_def)

section \<open>Branch timing\<close>

text \<open>
  C2. The claim: BEQ costs 4 cycles when taken across a page boundary and 2 cycles when
  not taken. The BEQ case adds 2 cycles and then 3 more when the branch is taken, 2 more
  when it is not, whatever the target: 5 and 4 cycles. (The BNE case adds 2, then 1, then 1
  more on a page crossing.)
\<close>

theorem beq_cycle_cost:
  "cycleCount (handleOpcode 0xF0 s) = cycleCount s + (if flagZero s then 5 else 4) \<and>
   cycleCount (emulateCPU beq_not_taken) = 4 \<and>
   programCounter (emulateCPU beq_page_cross) = 0x810F \<and>
   cycleCount (emulateCPU beq_page_cross) = 5"
  by (simp add: handleOpcode_def case_0xF0_def branchOn_def readMemory_pair Let_def
      emulateCPU_def beq_not_taken_def beq_page_cross_def constructed_def)

text \<open>
  For comparison, the BNE case: 2 cycles when not taken, 3 when taken, 4 when the taken
  branch changes the high byte of the program counter.
\<close>

lemma bne_cycle_cost:
  "cycleCount (handleOpcode 0xD0 s) =
     cycleCount s +
       (if flagZero s then 2
        else if (programCounter s + 1) AND 0xFF00 \<noteq>
                word_of_int (uint (programCounter s + 1) + sint (fst (readMemory (programCounter s) s)))
                  AND 0xFF00
             then 4 else 3)"
  unfolding memValue_def [symmetric]
  by (simp add: handleOpcode_def case_0xD0_def readMemory_split Let_def)

section \<open>Memory map\<close>

text \<open>
  C3. The claim: every address below \<open>0x2000\<close> reads the work RAM at the address modulo
  2048, without an unmapped-read report. In \<open>readMemory\<close> the RAM branch is guarded by
  \<open>address < 0x800\<close>, so the mirrors are not readable: after a write to \<open>0x0800\<close>, which
  \<open>writeMemory\<close> stores in RAM cell 0, a read of \<open>0x0800\<close> reports an invalid read and
  returns 0, while a read of address 0 returns the byte written.
\<close>

theorem read_of_ram_mirror_is_invalid:
  "readMemory 0x0800 (writeMemory 0x0800 0x42 s) =
     (0, (writeMemory 0x0800 0x42 s)\<lparr>cerr := cerr s @ [InvalidMemoryRead 0x0800]\<rparr>) \<and>
   readMemory 0x0000 (writeMemory 0x0800 0x42 s) = (0x42, writeMemory 0x0800 0x42 s)"
  by (simp add: readMemory_def writeMemory_def)

section \<open>Image load\<close>

text \<open>
  C4. The claim: an input shorter than 16 + 32768 bytes makes the load fail with an
  image-size error before anything is installed, and nothing is copied from beyond the end
  of the input. \<open>reset\<close> has no size check: with a file of 16 bytes (a header and no
  ROM) the second \<open>std::copy\<close> reads the range from offset \<open>0x10\<close> to \<open>0x8010\<close> of a
  16-byte vector.
\<close>

theorem reset_short_image_reads_past_end:
  "reset (Contents (replicate 16 0)) s = Inl ReadPastEndOfInput"
  by (simp add: reset_def std_copy_def)

text \<open>
  The same holds for every file shorter than 16 + 32768 bytes; a file of at least that
  size is installed: its first 16 bytes in the header, the next 32768 in ROM, and the
  program counter from the reset vector at ROM offsets \<open>0x7FFC\<close> and \<open>0x7FFD\<close>.
\<close>

lemma reset_short_image:
  assumes "length bytes < 16 + 32768"
  shows "reset (Contents bytes) s = Inl ReadPastEndOfInput"
  using assms by (simp add: reset_def std_copy_def Let_def)

lemma reset_full_image:
  assumes "16 + 32768 \<le> length bytes"
  shows "\<exists>s'. reset (Contents bytes) s = Inr s' \<and>
           (\<forall>i < 16. header s' i = bytes ! i) \<and>
           (\<forall>i < 32768. rom s' i = bytes ! (16 + i)) \<and>
           programCounter s' = addr16 (bytes ! (16 + 0x7FFD)) (bytes ! (16 + 0x7FFC)) \<and>
           ram s' = ram s \<and> cerr s' = cerr s"
  using assms by (simp add: reset_def std_copy_def readMemory_def Let_def)

section \<open>The run loop\<close>

text \<open>No case clears \<open>_cpuHalted\<close>: once set, it stays set.\<close>

lemmas case_defs =
  case_0xA0_def case_0xA2_def case_0xA5_def case_0xA9_def case_0xAD_def case_0x85_def
  case_0x8D_def case_0x86_def case_0x8E_def case_0x84_def case_0x8C_def case_0x10_def
  case_0x30_def case_0xD0_def case_0xF0_def case_0x48_def case_0x68_def case_0x20_def
  case_0x60_def case_0xEA_def case_0xE8_def case_0xC8_def case_0xCA_def case_0x88_def
  case_0xAA_def case_0x8A_def case_0xA8_def case_0x98_def case_0x9A_def case_0xBA_def
  case_0x38_def case_0x18_def case_0xB8_def case_0x78_def case_0x58_def case_0xF8_def
  case_0xD8_def case_0x08_def case_0x28_def case_0x0A_def case_0x06_def case_0x0E_def
  case_0x26_def case_0x2E_def case_0x4A_def case_0x46_def case_0x4E_def case_0x6A_def
  case_0x66_def case_0x6E_def case_0x09_def case_0x05_def case_0x0D_def case_0x29_def
  case_0x25_def case_0x2D_def case_0x49_def case_0x45_def case_0x4D_def case_0xE6_def
  case_0xEE_def case_0xC6_def case_0xCE_def case_0x69_def case_0x65_def case_0x6D_def
  case_0xE9_def case_0xE5_def case_0xED_def case_0xC9_def case_0xC5_def case_0xCD_def
  case_0xE0_def case_0xE4_def case_0xEC_def case_0xC0_def case_0xC4_def case_0xCC_def
  case_0x24_def case_0x2C_def case_0x00_def case_0x40_def case_0x4C_def case_0x70_def
  case_0xB0_def case_0x90_def case_0x50_def case_0xB9_def case_0xBD_def case_0x6C_def
  case_0x95_def case_0xB5_def case_0x75_def case_0x91_def case_0x81_def

lemma cases_keep_cpuHalted:
  "cpuHalted (case_0xA0 s) = cpuHalted s"
  "cpuHalted (case_0xA2 s) = cpuHalted s"
  "cpuHalted (case_0xA5 s) = cpuHalted s"
  "cpuHalted (case_0xA9 s) = cpuHalted s"
  "cpuHalted (case_0xAD s) = cpuHalted s"
  "cpuHalted (case_0x85 s) = cpuHalted s"
  "cpuHalted (case_0x8D s) = cpuHalted s"
  "cpuHalted (case_0x86 s) = cpuHalted s"
  "cpuHalted (case_0x8E s) = cpuHalted s"
  "cpuHalted (case_0x84 s) = cpuHalted s"
  "cpuHalted (case_0x8C s) = cpuHalted s"
  "cpuHalted (case_0x10 s) = cpuHalted s"
  "cpuHalted (case_0x30 s) = cpuHalted s"
  "cpuHalted (case_0xD0 s) = cpuHalted s"
  "cpuHalted (case_0xF0 s) = cpuHalted s"
  "cpuHalted (case_0x48 s) = cpuHalted s"
  "cpuHalted (case_0x68 s) = cpuHalted s"
  "cpuHalted (case_0x20 s) = cpuHalted s"
  "cpuHalted (case_0x60 s) = cpuHalted s"
  "cpuHalted (case_0xEA s) = cpuHalted s"
  "cpuHalted (case_0xE8 s) = cpuHalted s"
  "cpuHalted (case_0xC8 s) = cpuHalted s"
  "cpuHalted (case_0xCA s) = cpuHalted s"
  "cpuHalted (case_0x88 s) = cpuHalted s"
  "cpuHalted (case_0xAA s) = cpuHalted s"
  "cpuHalted (case_0x8A s) = cpuHalted s"
  "cpuHalted (case_0xA8 s) = cpuHalted s"
  "cpuHalted (case_0x98 s) = cpuHalted s"
  "cpuHalted (case_0x9A s) = cpuHalted s"
  "cpuHalted (case_0xBA s) = cpuHalted s"
  "cpuHalted (case_0x38 s) = cpuHalted s"
  "cpuHalted (case_0x18 s) = cpuHalted s"
  "cpuHalted (case_0xB8 s) = cpuHalted s"
  "cpuHalted (case_0x78 s) = cpuHalted s"
  "cpuHalted (case_0x58 s) = cpuHalted s"
  "cpuHalted (case_0xF8 s) = cpuHalted s"
  "cpuHalted (case_0xD8 s) = cpuHalted s"
  "cpuHalted (case_0x08 s) = cpuHalted s"
  "cpuHalted (case_0x28 s) = cpuHalted s"
  "cpuHalted (case_0x0A s) = cpuHalted s"
  "cpuHalted (case_0x06 s) = cpuHalted s"
  "cpuHalted (case_0x0E s) = cpuHalted s"
  "cpuHalted (case_0x26 s) = cpuHalted s"
  "cpuHalted (case_0x2E s) = cpuHalted s"
  "cpuHalted (case_0x4A s) = cpuHalted s"
  "cpuHalted (case_0x46 s) = cpuHalted s"
  "cpuHalted (case_0x4E s) = cpuHalted s"
  "cpuHalted (case_0x6A s) = cpuHalted s"
  "cpuHalted (case_0x66 s) = cpuHalted s"
  "cpuHalted (case_0x6E s) = cpuHalted s"
  "cpuHalted (case_0x09 s) = cpuHalted s"
  "cpuHalted (case_0x05 s) = cpuHalted s"
  "cpuHalted (case_0x0D s) = cpuHalted s"
  "cpuHalted (case_0x29 s) = cpuHalted s"
  "cpuHalted (case_0x25 s) = cpuHalted s"
  "cpuHalted (case_0x2D s) = cpuHalted s"
  "cpuHalted (case_0x49 s) = cpuHalted s"
  "cpuHalted (case_0x45 s) = cpuHalted s"
  "cpuHalted (case_0x4D s) = cpuHalted s"
  "cpuHalted (case_0xE6 s) = cpuHalted s"
  "cpuHalted (case_0xEE s) = cpuHalted s"
  "cpuHalted (case_0xC6 s) = cpuHalted s"
  "cpuHalted (case_0xCE s) = cpuHalted s"
  "cpuHalted (case_0x69 s) = cpuHalted s"
  "cpuHalted (case_0x65 s) = cpuHalted s"
  "cpuHalted (case_0x6D s) = cpuHalted s"
  "cpuHalted (case_0xE9 s) = cpuHalted s"
  "cpuHalted (case_0xE5 s) = cpuHalted s"
  "cpuHalted (case_0xED s) = cpuHalted s"
  "cpuHalted (case_0xC9 s) = cpuHalted s"
  "cpuHalted (case_0xC5 s) = cpuHalted s"
  "cpuHalted (case_0xCD s) = cpuHalted s"
  "cpuHalted (case_0xE0 s) = cpuHalted s"
  "cpuHalted (case_0xE4 s) = cpuHalted s"
  "cpuHalted (case_0xEC s) = cpuHalted s"
  "cpuHalted (case_0xC0 s) = cpuHalted s"
  "cpuHalted (case_0xC4 s) = cpuHalted s"
  "cpuHalted (case_0xCC s) = cpuHalted s"
  "cpuHalted (case_0x24 s) = cpuHalted s"
  "cpuHalted (case_0x2C s) = cpuHalted s"
  "cpuHalted (case_0x00 s) = cpuHalted s"
  "cpuHalted (case_0x40 s) = cpuHalted s"
  "cpuHalted (case_0x4C s) = cpuHalted s"
  "cpuHalted (case_0x70 s) = cpuHalted s"
  "cpuHalted (case_0xB0 s) = cpuHalted s"
  "cpuHalted (case_0x90 s) = cpuHalted s"
  "cpuHalted (case_0x50 s) = cpuHalted s"
  "cpuHalted (case_0xB9 s) = cpuHalted s"
  "cpuHalted (case_0xBD s) = cpuHalted s"
  "cpuHalted (case_0x6C s) = cpuHalted s"
  "cpuHalted (case_0x95 s) = cpuHalted s"
  "cpuHalted (case_0xB5 s) = cpuHalted s"
  "cpuHalted (case_0x75 s) = cpuHalted s"
  "cpuHalted (case_0x91 s) = cpuHalted s"
  "cpuHalted (case_0x81 s) = cpuHalted s"
  by (simp_all add: case_defs branchOn_def readOperandsAbsoluteAddress_eq readMemory_split
      pushStack_eq pullStack_eq writeMemory_def unpackStatus_def opROL_def opINC_def opDEC_def
      opORA_def opAND_def opEOR_def opADC_def opSBC_def opCMP_def opBIT_def Let_def)

lemma handleOpcode_keeps_cpuHalted:
  assumes "cpuHalted s"
  shows "cpuHalted (handleOpcode opcode s)"
  using assms by (simp add: handleOpcode_def cases_keep_cpuHalted case_0x02_def)

lemma runIteration_keeps_cpuHalted:
  assumes "cpuHalted s"
  shows "cpuHalted (runIteration s)"
  using assms
  by (simp add: runIteration_def emulateCPU_def readMemory_split Let_def
      handleOpcode_keeps_cpuHalted)

lemma iterations_keep_cpuHalted:
  assumes "cpuHalted ((runIteration ^^ k) s)"
  shows "cpuHalted ((runIteration ^^ (k + m)) s)"
proof (induction m)
  case 0
  then show ?case using assms by simp
next
  case (Suc m)
  then show ?case by (simp add: runIteration_keeps_cpuHalted)
qed

declare run_loop.simps [simp del]

lemma run_loop_characterised:
  assumes "i \<le> 1000"
  shows "i \<le> fst (run_loop i s) \<and> fst (run_loop i s) \<le> 1000 \<and>
         snd (run_loop i s) = (runIteration ^^ nat (fst (run_loop i s) - i)) s \<and>
         (cpuHalted (snd (run_loop i s)) \<or> fst (run_loop i s) = 1000)"
  using assms
proof (induction i s rule: run_loop.induct)
  case (1 i s)
  show ?case
  proof (cases "\<not> cpuHalted s \<and> i < 1000")
    case True
    obtain j t where jt: "run_loop (i + 1) (runIteration s) = (j, t)"
      by (cases "run_loop (i + 1) (runIteration s)")
    have eq: "run_loop i s = (j, t)"
      using True jt by (subst run_loop.simps) simp
    have "i + 1 \<le> 1000"
      using True by simp
    note ih = "1.IH" [OF True this, unfolded jt fst_conv snd_conv]
    have lo: "i + 1 \<le> j" and hi: "j \<le> 1000"
      and st: "t = (runIteration ^^ nat (j - (i + 1))) (runIteration s)"
      and fin: "cpuHalted t \<or> j = 1000"
      using ih by blast+
    have "nat (j - i) = Suc (nat (j - (i + 1)))"
      using lo by linarith
    then have "(runIteration ^^ nat (j - i)) s =
               (runIteration ^^ nat (j - (i + 1))) (runIteration s)"
      by (simp add: funpow_swap1)
    then have st': "t = (runIteration ^^ nat (j - i)) s"
      using st by simp
    have lo': "i \<le> j"
      using lo by linarith
    show ?thesis
      unfolding eq fst_conv snd_conv using lo' hi st' fin by blast
  next
    case False
    then have eq: "run_loop i s = (i, s)"
      by (subst run_loop.simps) auto
    have "cpuHalted s \<or> i = 1000"
      using False "1.prems" by linarith
    then show ?thesis
      unfolding eq fst_conv snd_conv using "1.prems" by simp
  qed
qed

lemma jmp_self_iteration:
  "runIteration (jmp_self_example\<lparr>cycleCount := c\<rparr>) = jmp_self_example\<lparr>cycleCount := c + 3\<rparr>"
  by (simp add: runIteration_def emulateCPU_def handleOpcode_def case_0x4C_def readMemory_def
      addr16_def Let_def jmp_self_example_def constructed_def)

lemma jmp_self_iterations:
  "(runIteration ^^ n) (jmp_self_example\<lparr>cycleCount := c\<rparr>) =
     jmp_self_example\<lparr>cycleCount := c + 3 * int n\<rparr>"
proof (induction n)
  case 0
  then show ?case by simp
next
  case (Suc n)
  have "c + 3 * int n + 3 = c + 3 * int (Suc n)" by simp
  then show ?case
    using Suc by (simp add: jmp_self_iteration)
qed

lemma jmp_self_never_halts: "\<not> cpuHalted ((runIteration ^^ n) jmp_self_example)"
proof -
  have "jmp_self_example\<lparr>cycleCount := 0\<rparr> = jmp_self_example"
    by (simp add: jmp_self_example_def constructed_def)
  then have "(runIteration ^^ n) jmp_self_example = jmp_self_example\<lparr>cycleCount := 3 * int n\<rparr>"
    using jmp_self_iterations [of n 0] by simp
  then show ?thesis
    by (simp add: jmp_self_example_def constructed_def)
qed

text \<open>The loop performs an iteration only from a state that is not halted.\<close>

lemma run_loop_live:
  assumes "i \<le> 1000" and "int k < fst (run_loop i s) - i"
  shows "\<not> cpuHalted ((runIteration ^^ k) s)"
  using assms
proof (induction i s arbitrary: k rule: run_loop.induct)
  case (1 i s)
  show ?case
  proof (cases "\<not> cpuHalted s \<and> i < 1000")
    case True
    have eq: "run_loop i s = run_loop (i + 1) (runIteration s)"
      using True by (subst run_loop.simps) simp
    have le: "i + 1 \<le> 1000"
      using True by simp
    show ?thesis
    proof (cases k)
      case 0
      then show ?thesis using True by simp
    next
      case (Suc k')
      have "int k' < fst (run_loop (i + 1) (runIteration s)) - (i + 1)"
        using "1.prems"(2) Suc unfolding eq by linarith
      then have "\<not> cpuHalted ((runIteration ^^ k') (runIteration s))"
        by (rule "1.IH" [OF True le])
      then show ?thesis
        unfolding Suc by (simp add: funpow_swap1)
    qed
  next
    case False
    then have eq: "run_loop i s = (i, s)"
      by (subst run_loop.simps) auto
    show ?thesis
      using "1.prems"(2) unfolding eq by simp
  qed
qed

text \<open>
  C5, as the claim states it: Halted is the only stop condition, so that whenever Halted
  is still false after \<open>n\<close> iterations the loop performs another one. The loop condition
  is \<open>!_cpuHalted && i < 1000\<close>: the program that jumps to itself has not halted after
  1000 iterations, and the loop returns after exactly 1000 iterations, not halted.
\<close>

theorem run_stops_after_1000_iterations_unhalted:
  "\<not> cpuHalted ((runIteration ^^ 1000) jmp_self_example) \<and> fst (run jmp_self_example) = 1000 \<and>
   \<not> cpuHalted (snd (run jmp_self_example))"
proof -
  have z: "(0::int) \<le> 1000" by simp
  note ch = run_loop_characterised [OF z, of jmp_self_example, folded run_def, unfolded diff_0_right]
  have st: "snd (run jmp_self_example) =
              (runIteration ^^ nat (fst (run jmp_self_example))) jmp_self_example"
    and fin: "cpuHalted (snd (run jmp_self_example)) \<or> fst (run jmp_self_example) = 1000"
    using ch by blast+
  have live: "\<not> cpuHalted (snd (run jmp_self_example))"
    unfolding st by (rule jmp_self_never_halts)
  then have "fst (run jmp_self_example) = 1000"
    using fin by simp
  then show ?thesis
    using live jmp_self_never_halts [of 1000] by simp
qed

text \<open>
  C5, amended. The loop performs fetch-decode-execute iterations until Halted is true or
  1000 iterations have been performed, whichever comes first. It performs between 0 and
  1000 iterations, its final state is the start state after that many iterations, and it
  stops either halted or after the 1000th iteration. For every \<open>n < 1000\<close>, if Halted is
  still false after \<open>n\<close> iterations, the loop performs iteration \<open>n + 1\<close>; and if Halted
  is true after \<open>k\<close> iterations, the loop performs at most \<open>k\<close> iterations: it never
  steps a halted machine.
\<close>

theorem run_stops_on_halt_or_after_1000_iterations:
  "0 \<le> fst (run s) \<and> fst (run s) \<le> 1000 \<and>
   snd (run s) = (runIteration ^^ nat (fst (run s))) s \<and>
   (cpuHalted (snd (run s)) \<or> fst (run s) = 1000) \<and>
   (n < 1000 \<and> \<not> cpuHalted ((runIteration ^^ n) s) \<longrightarrow> int n < fst (run s)) \<and>
   (cpuHalted ((runIteration ^^ k) s) \<longrightarrow> fst (run s) \<le> int k)"
proof -
  let ?j = "fst (run s)"
  have z: "(0::int) \<le> 1000" by simp
  note ch = run_loop_characterised [OF z, of s, folded run_def, unfolded diff_0_right]
  have lo: "0 \<le> ?j" and hi: "?j \<le> 1000"
    and st: "snd (run s) = (runIteration ^^ nat ?j) s"
    and fin: "cpuHalted (snd (run s)) \<or> ?j = 1000"
    using ch by blast+
  have more: "int n < ?j" if n: "n < 1000" and live: "\<not> cpuHalted ((runIteration ^^ n) s)"
  proof (rule ccontr)
    assume "\<not> int n < ?j"
    then have le: "nat ?j \<le> n" and "?j \<noteq> 1000"
      using n by linarith+
    then have "cpuHalted ((runIteration ^^ nat ?j) s)"
      using fin st by simp
    then have "cpuHalted ((runIteration ^^ (nat ?j + (n - nat ?j))) s)"
      by (rule iterations_keep_cpuHalted)
    then show False
      using live le by simp
  qed
  have stop: "?j \<le> int k" if halted: "cpuHalted ((runIteration ^^ k) s)"
  proof (rule ccontr)
    assume "\<not> ?j \<le> int k"
    then have "int k < fst (run_loop 0 s) - 0"
      by (simp add: run_def)
    then have "\<not> cpuHalted ((runIteration ^^ k) s)"
      by (rule run_loop_live [OF z])
    then show False
      using halted by simp
  qed
  show ?thesis
    using lo hi st fin more stop by blast
qed

text \<open>
  The program \<open>NOP; HLT\<close> is not halted after one iteration and is halted after two.
\<close>

lemma nop_hlt_iterations:
  "\<not> cpuHalted ((runIteration ^^ 1) nop_hlt_example) \<and>
   cpuHalted ((runIteration ^^ 2) nop_hlt_example)"
proof -
  have s1: "runIteration nop_hlt_example =
              nop_hlt_example\<lparr>programCounter := 0x8001, cycleCount := 2\<rparr>"
    by (simp add: runIteration_def emulateCPU_def handleOpcode_def case_0xEA_def readMemory_def
        Let_def nop_hlt_example_def constructed_def)
  have s2: "runIteration (nop_hlt_example\<lparr>programCounter := 0x8001, cycleCount := 2\<rparr>) =
              nop_hlt_example\<lparr>programCounter := 0x8002, cycleCount := 2, cpuHalted := True\<rparr>"
    by (simp add: runIteration_def emulateCPU_def handleOpcode_def case_0x02_def readMemory_def
        Let_def nop_hlt_example_def constructed_def)
  have two: "(runIteration ^^ 2) nop_hlt_example = runIteration (runIteration nop_hlt_example)"
    by (simp add: numeral_2_eq_2)
  show ?thesis
    unfolding two by (simp add: s1 s2) (simp add: nop_hlt_example_def constructed_def)
qed

theorem run_stops_on_halt_or_after_1000_iterations_witness:
  "(5::nat) < 1000 \<and> \<not> cpuHalted ((runIteration ^^ 5) jmp_self_example) \<and>
   int 5 < fst (run jmp_self_example) \<and>
   (1::nat) < 1000 \<and> \<not> cpuHalted ((runIteration ^^ 1) nop_hlt_example) \<and>
   int 1 < fst (run nop_hlt_example) \<and>
   cpuHalted ((runIteration ^^ 2) nop_hlt_example) \<and> fst (run nop_hlt_example) \<le> int 2"
  using run_stops_on_halt_or_after_1000_iterations [where s = jmp_self_example and n = 5]
    run_stops_on_halt_or_after_1000_iterations [where s = nop_hlt_example and n = 1 and k = 2]
    jmp_self_never_halts [of 5] nop_hlt_iterations
  by simp

text \<open>A run that halts: the loop stops after the second iteration.\<close>

lemma nop_hlt_run: "fst (run nop_hlt_example) = 2 \<and> cpuHalted (snd (run nop_hlt_example))"
proof -
  have s1: "runIteration nop_hlt_example =
              nop_hlt_example\<lparr>programCounter := 0x8001, cycleCount := 2\<rparr>"
    by (simp add: runIteration_def emulateCPU_def handleOpcode_def case_0xEA_def readMemory_def
        Let_def nop_hlt_example_def constructed_def)
  have s2: "runIteration (nop_hlt_example\<lparr>programCounter := 0x8001, cycleCount := 2\<rparr>) =
              nop_hlt_example\<lparr>programCounter := 0x8002, cycleCount := 2, cpuHalted := True\<rparr>"
    by (simp add: runIteration_def emulateCPU_def handleOpcode_def case_0x02_def readMemory_def
        Let_def nop_hlt_example_def constructed_def)
  have h0: "\<not> cpuHalted nop_hlt_example"
    by (simp add: nop_hlt_example_def constructed_def)
  let ?s1 = "nop_hlt_example\<lparr>programCounter := 0x8001, cycleCount := 2\<rparr>"
  let ?s2 = "nop_hlt_example\<lparr>programCounter := 0x8002, cycleCount := 2, cpuHalted := True\<rparr>"
  have h1: "\<not> cpuHalted ?s1"
    by (simp add: nop_hlt_example_def constructed_def)
  have r2: "run_loop 2 ?s2 = (2, ?s2)"
    by (subst run_loop.simps) simp
  have r1: "run_loop 1 ?s1 = run_loop 2 ?s2"
    by (subst run_loop.simps) (simp add: h1 s2)
  have r0: "run_loop 0 nop_hlt_example = run_loop 1 ?s1"
    by (subst run_loop.simps) (simp add: h0 s1)
  have "run nop_hlt_example = (2, ?s2)"
    unfolding run_def r0 r1 r2 ..
  then show ?thesis by simp
qed

section \<open>Shifts\<close>

text \<open>
  C6. The claim: after LSR in each of its three forms, Carry is bit 0 of the operand, Zero
  says whether the result is 0 and Negative is false. The absolute form (\<open>0x4E\<close>) sets
  Carry and writes the shifted byte, and assigns neither Zero nor Negative: both keep
  their previous values. In the example the result is 1 and both flags stay true.
\<close>

theorem lsr_absolute_keeps_zero_and_negative:
  "flagNegative (handleOpcode 0x4E s) = flagNegative s \<and>
   flagZero (handleOpcode 0x4E s) = flagZero s \<and>
   ram (emulateCPU lsr_absolute_example) 0x10 = 1 \<and>
   flagNegative (emulateCPU lsr_absolute_example) \<and>
   flagZero (emulateCPU lsr_absolute_example)"
  by (simp add: handleOpcode_def case_0x4E_def readOperandsAbsoluteAddress_def
      readMemory_pair writeMemory_def Let_def emulateCPU_def lsr_absolute_example_def
      constructed_def addr16_def)

text \<open>
  The accumulator and zero-page forms do set the three flags as the claim says, and the
  absolute form sets Carry to bit 0 of the operand.
\<close>

lemma lsr_accumulator_flags:
  "flagCarry (handleOpcode 0x4A s) = bit (A s) 0 \<and>
   A (handleOpcode 0x4A s) = drop_bit 1 (A s) \<and>
   flagZero (handleOpcode 0x4A s) = (drop_bit 1 (A s) = 0) \<and>
   \<not> flagNegative (handleOpcode 0x4A s)"
  by (simp add: handleOpcode_def case_0x4A_def Let_def and_one_eq mod_2_eq_odd bit_0)

lemma lsr_zero_page_flags:
  "let zp = fst (readMemory (programCounter s) s); v = ram s (unat zp)
   in flagCarry (handleOpcode 0x46 s) = bit v 0 \<and>
      ram (handleOpcode 0x46 s) = (ram s)(unat zp := drop_bit 1 v) \<and>
      flagZero (handleOpcode 0x46 s) = (drop_bit 1 v = 0) \<and>
      \<not> flagNegative (handleOpcode 0x46 s)"
  unfolding memValue_def [symmetric]
  by (simp add: handleOpcode_def case_0x46_def readMemory_split memValue_byte memReport_byte
      writeMemory_byte Let_def and_one_eq mod_2_eq_odd bit_0)

lemma lsr_absolute_carry:
  "flagCarry (handleOpcode 0x4E s) = bit (ram s (unat (fst (readMemory (programCounter s) s)))) 0"
  unfolding memValue_def [symmetric] handleOpcode_cases
  by (simp add: case_0x4E_def absolute_helper_simps and_one_eq mod_2_eq_odd bit_0)

section \<open>Operand bytes of the zero-page INC and DEC\<close>

text \<open>
  C7. The claim: INC and DEC in zero-page mode consume one operand byte, so that the
  program counter ends two bytes after the opcode. Both cases resolve their operand with
  \<open>readOperandsAbsoluteAddress\<close>, which consumes two bytes: from the state after the
  opcode fetch the program counter advances by 2 more, three bytes in all. In the example
  the \<open>NOP\<close> at \<open>0x8002\<close> is skipped.
\<close>

theorem inc_dec_zero_page_consume_two_operand_bytes:
  "programCounter (handleOpcode 0xE6 s) = programCounter s + 2 \<and>
   programCounter (handleOpcode 0xC6 s) = programCounter s + 2 \<and>
   programCounter (emulateCPU inc_zero_page_example) = 0x8003"
  by (simp add: handleOpcode_def case_0xE6_def case_0xC6_def opINC_def opDEC_def
      readOperandsAbsoluteAddress_def readMemory_pair writeMemory_def Let_def
      emulateCPU_def inc_zero_page_example_def constructed_def)

text \<open>The other zero-page cases consume one operand byte.\<close>

lemma other_zero_page_cases_consume_one_operand_byte:
  "programCounter (handleOpcode 0xA5 s) = programCounter s + 1"
  "programCounter (handleOpcode 0x85 s) = programCounter s + 1"
  "programCounter (handleOpcode 0x86 s) = programCounter s + 1"
  "programCounter (handleOpcode 0x84 s) = programCounter s + 1"
  "programCounter (handleOpcode 0x06 s) = programCounter s + 1"
  "programCounter (handleOpcode 0x26 s) = programCounter s + 1"
  "programCounter (handleOpcode 0x46 s) = programCounter s + 1"
  "programCounter (handleOpcode 0x66 s) = programCounter s + 1"
  "programCounter (handleOpcode 0x05 s) = programCounter s + 1"
  "programCounter (handleOpcode 0x25 s) = programCounter s + 1"
  "programCounter (handleOpcode 0x45 s) = programCounter s + 1"
  "programCounter (handleOpcode 0x65 s) = programCounter s + 1"
  "programCounter (handleOpcode 0xE5 s) = programCounter s + 1"
  "programCounter (handleOpcode 0xC5 s) = programCounter s + 1"
  "programCounter (handleOpcode 0xE4 s) = programCounter s + 1"
  "programCounter (handleOpcode 0xC4 s) = programCounter s + 1"
  "programCounter (handleOpcode 0x24 s) = programCounter s + 1"
  by (simp_all add: handleOpcode_def case_0xA5_def case_0x85_def case_0x86_def case_0x84_def case_0x06_def case_0x26_def case_0x46_def case_0x66_def case_0x05_def case_0x25_def case_0x45_def case_0x65_def case_0xE5_def case_0xC5_def case_0xE4_def case_0xC4_def case_0x24_def readMemory_split
      writeMemory_def opORA_def opAND_def opEOR_def opADC_def opSBC_def opCMP_def opBIT_def
      Let_def)

section \<open>Unknown opcodes\<close>

lemma handleOpcode_default:
  assumes "opcode \<notin> set supported_opcodes"
  shows "handleOpcode opcode s =
           s\<lparr>cerr := cerr s @ [UnknownOpcode opcode], cpuHalted := True\<rparr>"
  using assms unfolding supported_opcodes_def handleOpcode_def by simp

lemma zero_supported: "0 \<in> set supported_opcodes"
  by (simp add: supported_opcodes_def)

text \<open>
  C8. A step that fetches an opcode matched by no case label sets the Halted flag, reports
  the unknown opcode on \<open>std::cerr\<close>, and advances the program counter by one; every
  other field of the state (A, X, Y, the stack pointer, the six flags, RAM, ROM and the
  cycle count) is as before. The fetch itself reports nothing: an unmapped fetch yields
  the byte 0, which is the BRK case.
\<close>

theorem unknown_opcode_halts:
  assumes "fst (readMemory (programCounter s) s) \<notin> set supported_opcodes"
  shows "emulateCPU s =
           s\<lparr>programCounter := programCounter s + 1, cpuHalted := True,
             cerr := cerr s @ [UnknownOpcode (fst (readMemory (programCounter s) s))]\<rparr>"
proof -
  let ?pc = "programCounter s"
  have nz: "fst (readMemory ?pc s) \<noteq> 0"
    using assms zero_supported by metis
  have mapped: "?pc < 0x800 \<or> 0x8000 \<le> ?pc"
    using nz by (auto simp: readMemory_def split: if_splits)
  then have snd_eq: "snd (readMemory ?pc s) = s"
    by (auto simp: readMemory_def)
  have "emulateCPU s = handleOpcode (fst (readMemory ?pc s)) (s\<lparr>programCounter := ?pc + 1\<rparr>)"
    using snd_eq by (simp add: emulateCPU_def split_def Let_def)
  then show ?thesis
    using handleOpcode_default [OF assms] by simp
qed

theorem unknown_opcode_halts_witness:
  "fst (readMemory (programCounter unknown_opcode_example) unknown_opcode_example)
     \<notin> set supported_opcodes \<and>
   emulateCPU unknown_opcode_example =
     unknown_opcode_example\<lparr>programCounter := 0x8001, cpuHalted := True,
       cerr := [UnknownOpcode 0xFF]\<rparr>"
proof -
  have op: "fst (readMemory (programCounter unknown_opcode_example) unknown_opcode_example) = 0xFF"
    by (simp add: readMemory_def unknown_opcode_example_def constructed_def)
  have unknown: "fst (readMemory (programCounter unknown_opcode_example) unknown_opcode_example)
      \<notin> set supported_opcodes"
    unfolding op by (simp add: supported_opcodes_def)
  show ?thesis
    using unknown unknown_opcode_halts [OF unknown] unfolding op
    by (simp add: unknown_opcode_example_def constructed_def)
qed

section \<open>Subroutine linkage\<close>

lemma jsr_step:
  assumes "fst (readMemory (programCounter s) s) = 0x20"
  shows "programCounter (emulateCPU s) =
           addr16 (fst (readMemory (programCounter s + 2) s))
                  (fst (readMemory (programCounter s + 1) s)) \<and>
         ram (emulateCPU s) (0x100 + unat (stackPointer s)) = ucast (drop_bit 8 (programCounter s + 2)) \<and>
         ram (emulateCPU s) (0x100 + unat (stackPointer s - 1)) = ucast (programCounter s + 2) \<and>
         stackPointer (emulateCPU s) = stackPointer s - 2"
proof -
  have e: "emulateCPU s = case_0x20 (s\<lparr>programCounter := programCounter s + 1\<rparr>)"
    using emulateCPU_fetch [OF assms] by (simp add: handleOpcode_cases)
  have c: "2 + programCounter s = programCounter s + 2" by simp
  show ?thesis
    unfolding e memValue_def [symmetric]
    using unat_pred_neq [of "stackPointer s"]
    by (simp add: case_0x20_def readMemory_split pushStack_eq Let_def ucast_low_byte c)
qed

lemma rts_step:
  assumes "fst (readMemory (programCounter s) s) = 0x60"
  shows "programCounter (emulateCPU s) =
           addr16 (ram s (0x100 + unat (stackPointer s + 2))) (ram s (0x100 + unat (stackPointer s + 1))) + 1 \<and>
         stackPointer (emulateCPU s) = stackPointer s + 2"
proof -
  have e: "emulateCPU s = case_0x60 (s\<lparr>programCounter := programCounter s + 1\<rparr>)"
    using emulateCPU_fetch [OF assms] by (simp add: handleOpcode_cases)
  have c: "2 + stackPointer s = stackPointer s + 2" by simp
  show ?thesis
    unfolding e
    by (simp add: case_0x60_def pullStack_eq Let_def c)
qed

text \<open>
  C9, as the claim states it: JSR at \<open>p\<close>, followed later by RTS with the stack pointer
  at the value JSR left it, returns to \<open>p + 3\<close>. In the example the stack pointer is
  \<open>0xFB\<close> after the JSR and again when RTS is fetched, three steps later; in between,
  \<open>STA $89FC\<close> has overwritten the low return byte in RAM cell \<open>0x1FC\<close> with \<open>0x77\<close>,
  and RTS continues at \<open>0x8078\<close>, not at \<open>0x8003\<close>.
\<close>

theorem jsr_rts_return_bytes_overwritten:
  "fst (readMemory (programCounter jsr_overwritten_example) jsr_overwritten_example) = 0x20 \<and>
   programCounter jsr_overwritten_example = 0x8000 \<and>
   stackPointer (emulateCPU jsr_overwritten_example) = 0xFB \<and>
   stackPointer (emulateCPU (emulateCPU (emulateCPU jsr_overwritten_example))) = 0xFB \<and>
   fst (readMemory
         (programCounter (emulateCPU (emulateCPU (emulateCPU jsr_overwritten_example))))
         (emulateCPU (emulateCPU (emulateCPU jsr_overwritten_example)))) = 0x60 \<and>
   programCounter
     (emulateCPU (emulateCPU (emulateCPU (emulateCPU jsr_overwritten_example)))) = 0x8078"
proof -
  let ?s0 = jsr_overwritten_example
  let ?s1 = "?s0\<lparr>programCounter := 0x8005, ram := (\<lambda>i. 0)(0x1FD := 0x80, 0x1FC := 0x02),
                 stackPointer := 0xFB, cycleCount := 6\<rparr>"
  let ?s2 = "?s1\<lparr>programCounter := 0x8007, A := 0x77, cycleCount := 8\<rparr>"
  let ?s3 = "?s2\<lparr>programCounter := 0x800A, ram := (\<lambda>i. 0)(0x1FD := 0x80, 0x1FC := 0x77),
                 cycleCount := 12\<rparr>"
  have e1: "emulateCPU ?s0 = ?s1"
    by (simp add: emulateCPU_def handleOpcode_cases case_0x20_def readMemory_def pushStack_def
        writeMemory_def addr16_def Let_def jsr_overwritten_example_def constructed_def)
  have e2: "emulateCPU ?s1 = ?s2"
    by (simp add: emulateCPU_def handleOpcode_cases case_0xA9_def readMemory_def Let_def
        jsr_overwritten_example_def constructed_def)
  have e3: "emulateCPU ?s2 = ?s3"
    by (simp add: emulateCPU_def handleOpcode_cases case_0x8D_def readMemory_def
        writeMemory_def addr16_def Let_def jsr_overwritten_example_def constructed_def)
  have e4: "programCounter (emulateCPU ?s3) = 0x8078"
    by (simp add: emulateCPU_def handleOpcode_cases case_0x60_def readMemory_def pullStack_def
        addr16_def Let_def jsr_overwritten_example_def constructed_def)
  have f3: "fst (readMemory (programCounter ?s3) ?s3) = 0x60"
    by (simp add: readMemory_def jsr_overwritten_example_def constructed_def)
  have c1: "fst (readMemory (programCounter ?s0) ?s0) = 0x20"
    by (simp add: readMemory_def jsr_overwritten_example_def constructed_def)
  have c2: "programCounter ?s0 = 0x8000"
    by (simp add: jsr_overwritten_example_def constructed_def)
  have c3: "stackPointer (emulateCPU ?s0) = 0xFB"
    unfolding e1 by simp
  have c4: "stackPointer (emulateCPU (emulateCPU (emulateCPU ?s0))) = 0xFB"
    unfolding e1 e2 e3 by simp
  have c5: "fst (readMemory (programCounter (emulateCPU (emulateCPU (emulateCPU ?s0))))
               (emulateCPU (emulateCPU (emulateCPU ?s0)))) = 0x60"
    unfolding e1 e2 e3 by (rule f3)
  have c6: "programCounter (emulateCPU (emulateCPU (emulateCPU (emulateCPU ?s0)))) = 0x8078"
    unfolding e1 e2 e3 by (rule e4)
  show ?thesis
    using c1 c2 c3 c4 c5 c6 by (intro conjI)
qed

text \<open>
  C9, amended. A step that fetches JSR at address \<open>p\<close> jumps to the operand address,
  pushes the high byte and then the low byte of \<open>p + 2\<close> (the return address minus one)
  and lowers the stack pointer by two. When RTS is fetched later in a state \<open>s2\<close> whose
  stack pointer is the one JSR left and whose two stack cells still hold the pushed bytes,
  it pulls the low byte, then the high byte, adds one, and continues at \<open>p + 3\<close>, with the
  stack pointer back at its value before the JSR. This holds for every operand address,
  those of the ROM range among them, and also when the stack pointer wraps around.
\<close>

theorem jsr_rts_round_trip:
  assumes jsr: "fst (readMemory (programCounter s) s) = 0x20"
    and sp2: "stackPointer s2 = stackPointer (emulateCPU s)"
    and hi2: "ram s2 (0x100 + unat (stackPointer s)) =
              ram (emulateCPU s) (0x100 + unat (stackPointer s))"
    and lo2: "ram s2 (0x100 + unat (stackPointer s - 1)) =
              ram (emulateCPU s) (0x100 + unat (stackPointer s - 1))"
    and rts: "fst (readMemory (programCounter s2) s2) = 0x60"
  shows "programCounter (emulateCPU s) =
           addr16 (fst (readMemory (programCounter s + 2) s))
                  (fst (readMemory (programCounter s + 1) s)) \<and>
         ram (emulateCPU s) (0x100 + unat (stackPointer s)) =
           ucast (drop_bit 8 (programCounter s + 2)) \<and>
         ram (emulateCPU s) (0x100 + unat (stackPointer s - 1)) =
           ucast (programCounter s + 2) \<and>
         stackPointer (emulateCPU s) = stackPointer s - 2 \<and>
         programCounter (emulateCPU s2) = programCounter s + 3 \<and>
         stackPointer (emulateCPU s2) = stackPointer s"
proof -
  note j = jsr_step [OF jsr]
  note r = rts_step [OF rts]
  have sp: "stackPointer s2 = stackPointer s - 2"
    using sp2 j by simp
  have i1: "stackPointer s2 + 1 = stackPointer s - 1" and i2: "stackPointer s2 + 2 = stackPointer s"
    unfolding sp by simp_all
  have lo: "ram s2 (0x100 + unat (stackPointer s2 + 1)) = ucast (programCounter s + 2)"
    unfolding i1 using lo2 j by simp
  have hi: "ram s2 (0x100 + unat (stackPointer s2 + 2)) = ucast (drop_bit 8 (programCounter s + 2))"
    unfolding i2 using hi2 j by simp
  have rejoin: "addr16 (ucast (drop_bit 8 (programCounter s + 2))) (ucast (programCounter s + 2))
                = programCounter s + 2"
    using addr16_split [of "programCounter s + 2"] by (simp add: ucast_low_byte)
  have "programCounter (emulateCPU s2) = programCounter s + 3"
    using r unfolding lo hi rejoin by simp
  moreover have "stackPointer (emulateCPU s2) = stackPointer s"
    using r i2 by simp
  ultimately show ?thesis
    using j by simp
qed

theorem jsr_rts_round_trip_witness:
  "fst (readMemory (programCounter jsr_rts_example) jsr_rts_example) = 0x20 \<and>
   fst (readMemory (programCounter (emulateCPU jsr_rts_example)) (emulateCPU jsr_rts_example)) = 0x60 \<and>
   programCounter (emulateCPU jsr_rts_example) = 0x8005 \<and>
   ram (emulateCPU jsr_rts_example) 0x1FD = 0x80 \<and>
   ram (emulateCPU jsr_rts_example) 0x1FC = 0x02 \<and>
   stackPointer (emulateCPU jsr_rts_example) = 0xFB \<and>
   programCounter (emulateCPU (emulateCPU jsr_rts_example)) = 0x8003 \<and>
   stackPointer (emulateCPU (emulateCPU jsr_rts_example)) = 0xFD"
proof -
  let ?s = jsr_rts_example
  have jsr: "fst (readMemory (programCounter ?s) ?s) = 0x20"
    by (simp add: readMemory_def jsr_rts_example_def constructed_def)
  have after: "programCounter (emulateCPU ?s) = 0x8005 \<and> rom (emulateCPU ?s) 5 = 0x60"
    by (simp add: emulateCPU_def handleOpcode_def case_0x20_def readMemory_def pushStack_def
        writeMemory_def Let_def jsr_rts_example_def constructed_def addr16_def)
  have rts: "fst (readMemory (programCounter (emulateCPU ?s)) (emulateCPU ?s)) = 0x60"
    using after by (simp add: readMemory_def)
  have vals: "programCounter ?s = 0x8000 \<and> stackPointer ?s = 0xFD"
    by (simp add: jsr_rts_example_def constructed_def)
  show ?thesis
    using jsr rts after jsr_rts_round_trip [OF jsr refl refl refl rts]
    by (simp add: vals)
qed

end
